theory Spec2Isabelle
  imports Complex_Main "HOL-Library.Sublist"
begin

section \<open>Python values used by the advisory tools\<close>

subsection \<open>Strings\<close>

text \<open>
  A Python \<open>str\<close> is modelled as a \<open>string\<close>, a list of 8-bit characters (the UTF-8 bytes
  of the text). Case conversion and whitespace are those of the ASCII range; a byte above
  127 is left alone. Every keyword the programs compare against is plain ASCII. The search
  that ignores case in the labels of a table follows the case folding of Python's regular
  expressions, which goes beyond ASCII; it is defined with \<open>load_financial_data\<close>.
\<close>

definition ascii_uppercase :: string where
  "ascii_uppercase = ''ABCDEFGHIJKLMNOPQRSTUVWXYZ''"

definition ascii_lowercase :: string where
  "ascii_lowercase = ''abcdefghijklmnopqrstuvwxyz''"

definition lower_char :: "char \<Rightarrow> char" where
  "lower_char c =
     (case map_of (zip ascii_uppercase ascii_lowercase) c of Some d \<Rightarrow> d | None \<Rightarrow> c)"

definition upper_char :: "char \<Rightarrow> char" where
  "upper_char c =
     (case map_of (zip ascii_lowercase ascii_uppercase) c of Some d \<Rightarrow> d | None \<Rightarrow> c)"

definition lower :: "string \<Rightarrow> string" where
  \<comment> \<open>\<open>s.lower()\<close>\<close>
  "lower s = map lower_char s"

definition upper :: "string \<Rightarrow> string" where
  \<comment> \<open>\<open>s.upper()\<close>\<close>
  "upper s = map upper_char s"

definition isspace :: "char \<Rightarrow> bool" where
  \<comment> \<open>the ASCII characters for which \<open>str.isspace\<close> holds\<close>
  "isspace c \<longleftrightarrow>
     c \<in> set [CHR 0x09, CHR 0x0A, CHR 0x0B, CHR 0x0C, CHR 0x0D,
               CHR 0x1C, CHR 0x1D, CHR 0x1E, CHR 0x1F, CHR 0x20]"

definition strip :: "string \<Rightarrow> string" where
  \<comment> \<open>\<open>s.strip()\<close>\<close>
  "strip s = rev (dropWhile isspace (rev (dropWhile isspace s)))"

fun contains :: "string \<Rightarrow> string \<Rightarrow> bool" where
  \<comment> \<open>\<open>sub in s\<close>: \<open>sub\<close> occurs in \<open>s\<close> as a contiguous piece\<close>
  "contains [] sub = (sub = [])"
| "contains (c # cs) sub = (prefix sub (c # cs) \<or> contains cs sub)"

definition endswith :: "string \<Rightarrow> string \<Rightarrow> bool" where
  \<comment> \<open>\<open>s.endswith(suf)\<close>\<close>
  "endswith s suf = prefix (rev suf) (rev s)"

definition remove_char :: "char \<Rightarrow> string \<Rightarrow> string" where
  \<comment> \<open>\<open>s.replace(c, '')\<close> for a single character \<open>c\<close>\<close>
  "remove_char c s = filter (\<lambda>d. d \<noteq> c) s"

definition pending :: "string option \<Rightarrow> string option" where
  \<comment> \<open>\<open>if v:\<close> on a variable that holds \<open>None\<close> or a \<open>str\<close>: the string when the test
      succeeds (the variable is neither \<open>None\<close> nor empty)\<close>
  "pending v = (case v of None \<Rightarrow> None | Some s \<Rightarrow> if s \<noteq> [] then Some s else None)"

subsection \<open>Floats\<close>

text \<open>
  A Python \<open>float\<close>: a finite value, an infinity or not-a-number. The programs compare
  floats and pass them on; the one subtraction they do is taken from the runtime (see
  \<open>pylib\<close> below), so no rounding is modelled here. Minus zero is \<open>Fin 0\<close>.
\<close>

datatype pyfloat = Fin real | PInf | NInf | NaN

fun float_eq :: "pyfloat \<Rightarrow> pyfloat \<Rightarrow> bool" where
  \<comment> \<open>\<open>a == b\<close>: not-a-number equals nothing\<close>
  "float_eq NaN b = False"
| "float_eq a NaN = False"
| "float_eq a b = (a = b)"

fun float_lt :: "pyfloat \<Rightarrow> pyfloat \<Rightarrow> bool" where
  \<comment> \<open>\<open>a < b\<close>\<close>
  "float_lt NaN b = False"
| "float_lt a NaN = False"
| "float_lt (Fin x) (Fin y) = (x < y)"
| "float_lt NInf b = (b \<noteq> NInf)"
| "float_lt a PInf = (a \<noteq> PInf)"
| "float_lt a b = False"

subsection \<open>Exceptions\<close>

text \<open>
  The exceptions that reach a handler of the programs, all of them subclasses of
  \<open>Exception\<close>, so that the clause \<open>except Exception\<close> catches every value of this type.
  \<open>SystemExit\<close>, which that clause lets pass, is raised at one place (\<open>get_numeric_input\<close>
  of analyst.py) and is an outcome of its own there.
\<close>

datatype exn =
    EOFError
  | FileNotFoundError
  | KeyError string
  | ValueError string
  | TypeError string
  | UnboundLocalError string
  | OtherException string

datatype 'a outcome = Value 'a | Raise exn | Exit string

text \<open>
  What the remote completion service and its client library can raise: all of them are
  subclasses of \<open>Exception\<close>.
\<close>

datatype api_error =
    Connectivity
  | Authentication
  | Quota
  | SchemaValidation
  | OtherFailure string

section \<open>Terminal and remote service\<close>

text \<open>
  A line written by \<open>print\<close>, or the prompt written by \<open>input\<close>. A line that formats an
  exception \<open>e\<close> into its text keeps the fixed text before and after it and the exception
  itself.
\<close>

datatype out =
    Line string
  | Ask string
  | ExnLine string exn string
  | ApiLine string api_error

text \<open>
  The state of a session: the lines still to be typed on stdin (when the list is empty,
  stdin is at end of file), what has been printed, the texts sent to the completion
  service so far, and a clock that advances at each request to the outside world, so
  that the outside world may answer the same request differently each time.
\<close>

record io =
  stdin :: "string list"
  stdout :: "out list"
  calls :: "string list"
  clock :: nat

definition print :: "out \<Rightarrow> io \<Rightarrow> io" where
  "print l s = s\<lparr>stdout := stdout s @ [l]\<rparr>"

definition prints :: "out list \<Rightarrow> io \<Rightarrow> io" where
  "prints ls s = s\<lparr>stdout := stdout s @ ls\<rparr>"

definition tick :: "io \<Rightarrow> io" where
  "tick s = s\<lparr>clock := Suc (clock s)\<rparr>"

definition input :: "string \<Rightarrow> io \<Rightarrow> (exn + string) \<times> io" where
  \<comment> \<open>\<open>input(prompt)\<close>: writes the prompt, then reads a line or raises \<open>EOFError\<close>\<close>
  "input prompt s =
     (case stdin s of
        [] \<Rightarrow> (Inl EOFError, print (Ask prompt) s)
      | l # ls \<Rightarrow> (Inr l, (print (Ask prompt) s)\<lparr>stdin := ls\<rparr>))"

text \<open>
  The remote side of a tool, for the report type \<open>'r\<close> of its schema: the module constants
  \<open>SYSTEM_PROMPT\<close> and \<open>AWS_REGION\<close>, the construction of the client
  (\<open>boto3.client\<close> followed by \<open>instructor.from_bedrock\<close>: \<open>None\<close> when both return, or the
  exception raised), and \<open>client.messages.create\<close> with the tool's schema as response
  model, which returns a validated report or raises.
\<close>

record 'r bedrock =
  SYSTEM_PROMPT :: string
  AWS_REGION :: string
  from_bedrock :: "nat \<Rightarrow> api_error option"
  messages_create :: "nat \<Rightarrow> string \<Rightarrow> api_error + 'r"

definition request :: "'r bedrock \<Rightarrow> string \<Rightarrow> io \<Rightarrow> (api_error + 'r) \<times> io" where
  \<comment> \<open>one call of \<open>client.messages.create\<close> with the given text as the user message\<close>
  "request svc content s =
     (messages_create svc (clock s) content, tick (s\<lparr>calls := calls s @ [content]\<rparr>))"

definition apostrophe :: string where
  "apostrophe = [CHR 0x27]"

definition dashes :: "nat \<Rightarrow> string" where
  "dashes n = replicate n CHR ''-''"

definition equals :: "nat \<Rightarrow> string" where
  "equals n = replicate n CHR ''=''"

definition bullet :: string where
  \<comment> \<open>the bytes between the two blanks and the item in the list lines of the reports\<close>
  "bullet = [CHR 0xC3, CHR 0xA2, CHR 0xE2, CHR 0x82, CHR 0xAC, CHR 0xC2, CHR 0xA2]"

section \<open>The advisors (advise.py, nigerian_advisor.py, irrelevant/chatbot.py)\<close>

subsection \<open>Schemas\<close>

datatype advice_type = BUSINESS_STRATEGY | TAX_COMPLIANCE | IRRELEVANT

fun advice_type_str :: "advice_type \<Rightarrow> string" where
  "advice_type_str BUSINESS_STRATEGY = ''BUSINESS_STRATEGY''"
| "advice_type_str TAX_COMPLIANCE = ''TAX_COMPLIANCE''"
| "advice_type_str IRRELEVANT = ''IRRELEVANT''"

text \<open>
  \<open>BusinessAdvice\<close> (nigerian_advisor.py, irrelevant/chatbot.py) and
  \<open>DetailedBusinessAdvice\<close> (advise.py) start with the same three fields.
\<close>

record advice_head =
  relevance_score :: pyfloat
  advice_type :: advice_type
  advice_title :: string

record BusinessAdvice = advice_head +
  advice :: string

record DetailedBusinessAdvice = advice_head +
  key_points_summary :: string
  detailed_explanation :: string
  actionable_steps :: "string list"
  potential_risks_or_considerations :: string

subsection \<open>get_nigerian_advice\<close>

definition full_query :: "string \<Rightarrow> string \<Rightarrow> string" where
  \<comment> \<open>\<open>f"{SYSTEM_PROMPT}\n\nUSER QUERY: {user_query}"\<close>\<close>
  "full_query policy user_query = policy @ ''\<newline>\<newline>USER QUERY: '' @ user_query"

definition detailed_fallback :: DetailedBusinessAdvice where
  \<comment> \<open>the object built in the \<open>except\<close> branch of \<open>get_nigerian_advice\<close> in advise.py\<close>
  "detailed_fallback =
     \<lparr> relevance_score = Fin 0,
       advice_type = IRRELEVANT,
       advice_title = ''System Error: API Failure'',
       key_points_summary =
         ''The advisory service is currently unavailable due to a connection or API error.'',
       detailed_explanation = ''Please check your AWS configuration or model access.'',
       actionable_steps = [],
       potential_risks_or_considerations = ''N/A'' \<rparr>"

definition get_nigerian_advice ::
  "DetailedBusinessAdvice bedrock \<Rightarrow> string \<Rightarrow> io \<Rightarrow> DetailedBusinessAdvice \<times> io" where
  \<comment> \<open>advise.py; the whole body is inside the \<open>try\<close>\<close>
  "get_nigerian_advice svc user_query s =
     (case from_bedrock svc (clock s) of
        Some e \<Rightarrow>
          (detailed_fallback, print (ApiLine ''An API/Connection error occurred: '' e) (tick s))
      | None \<Rightarrow>
          (case request svc (full_query (SYSTEM_PROMPT svc) user_query) (tick s) of
             (Inr advice_object, s') \<Rightarrow> (advice_object, s')
           | (Inl e, s') \<Rightarrow>
               (detailed_fallback, print (ApiLine ''An API/Connection error occurred: '' e) s')))"

definition basic_fallback :: BusinessAdvice where
  \<comment> \<open>the object built in the \<open>except\<close> branch in nigerian_advisor.py and chatbot.py\<close>
  "basic_fallback =
     \<lparr> relevance_score = Fin 0,
       advice_type = IRRELEVANT,
       advice_title = ''System Error: API Failure'',
       advice =
         ''The advisory service is currently unavailable due to a connection or API error. ''
         @ ''Please check your AWS configuration or model access.'' \<rparr>"

definition get_nigerian_advice_basic ::
  "BusinessAdvice bedrock \<Rightarrow> string \<Rightarrow> io \<Rightarrow> BusinessAdvice \<times> io" where
  \<comment> \<open>\<open>get_nigerian_advice\<close> of nigerian_advisor.py and of irrelevant/chatbot.py (the two
      bodies are the same)\<close>
  "get_nigerian_advice_basic svc user_query s =
     (case from_bedrock svc (clock s) of
        Some e \<Rightarrow>
          (basic_fallback, print (ApiLine ''An API/Connection error occurred: '' e) (tick s))
      | None \<Rightarrow>
          (case request svc (full_query (SYSTEM_PROMPT svc) user_query) (tick s) of
             (Inr advice_object, s') \<Rightarrow> (advice_object, s')
           | (Inl e, s') \<Rightarrow>
               (basic_fallback, print (ApiLine ''An API/Connection error occurred: '' e) s')))"

subsection \<open>The interactive loop\<close>

definition GREETINGS :: "string list" where
  "GREETINGS = [''hi'', ''hello'', ''hey'', ''good morning'', ''good afternoon'', ''good evening'']"

definition advisor_goodbye :: out where
  "advisor_goodbye = Line ''\<newline>Thank you for using the Nigerian Business Advisor. Goodbye!''"

definition advisor_welcome :: "out list" where
  "advisor_welcome =
     [Line (''\<newline>Hello! I am your Nigerian Business and Tax Advisor. How can I assist you ''
            @ ''with your business strategy or tax compliance questions today?''),
      Line (dashes 50)]"

definition advisor_prompt :: string where
  "advisor_prompt = ''Ask a business or tax question (specific to Nigeria):\<newline>> ''"

definition show_detailed_advice :: "DetailedBusinessAdvice \<Rightarrow> out list" where
  \<comment> \<open>the display of phase 2 in advise.py\<close>
  "show_detailed_advice a =
     [Line (''\<newline>'' @ equals 50),
      Line (''TITLE: '' @ upper (advice_title a)),
      Line (''TYPE: '' @ upper (advice_type_str (advice_type a))),
      Line (equals 50)]
     @ (if float_lt (Fin (1 / 2)) (relevance_score a)
        then [Line ''\<newline>--- KEY SUMMARY ---'', Line (key_points_summary a),
              Line ''\<newline>--- DETAILED EXPLANATION ---'', Line (detailed_explanation a)]
             @ (if actionable_steps a \<noteq> []
                then Line ''\<newline>--- ACTIONABLE NEXT STEPS ---''
                     # map (\<lambda>step. Line (''  '' @ bullet @ '' '' @ step)) (actionable_steps a)
                else [])
             @ [Line ''\<newline>--- KEY CONSIDERATIONS ---'',
                Line (potential_risks_or_considerations a)]
        else [Line (key_points_summary a)])"

definition show_basic_advice :: "BusinessAdvice \<Rightarrow> out list" where
  \<comment> \<open>the display of phase 2 in nigerian_advisor.py\<close>
  "show_basic_advice a =
     [Line (''\<newline>'' @ equals 50),
      Line (''TITLE: '' @ upper (advice_title a)),
      Line (''TYPE: '' @ upper (advice_type_str (advice_type a))),
      Line (equals 50),
      Line (advice a)]"

definition advise_consult :: "DetailedBusinessAdvice bedrock \<Rightarrow> string \<Rightarrow> io \<Rightarrow> io" where
  \<comment> \<open>phase 2 of advise.py\<close>
  "advise_consult svc user_query s =
     (case get_nigerian_advice svc user_query s of
        (advice_object, s') \<Rightarrow> prints (show_detailed_advice advice_object) s')"

definition advisor_consult :: "BusinessAdvice bedrock \<Rightarrow> string \<Rightarrow> io \<Rightarrow> io" where
  \<comment> \<open>phase 2 of nigerian_advisor.py\<close>
  "advisor_consult svc user_query s =
     (case get_nigerian_advice_basic svc user_query s of
        (advice_object, s') \<Rightarrow> prints (show_basic_advice advice_object) s')"

definition detailed_continue_prompt :: string where
  "detailed_continue_prompt =
     ''\<newline>\<newline>Do you have any other questions? ''
     @ ''(Type 'no' to exit, or enter your next question):\<newline>> ''"

definition basic_continue_prompt :: string where
  "basic_continue_prompt =
     ''\<newline>Do you have any other questions about Nigerian business or tax? ''
     @ ''(Type 'no' to exit, or enter your next question):\<newline>> ''"

text \<open>
  The loop of a tool. Its body reads stdin at two places, the first prompt and the
  continuation prompt at the end; the model cuts the body there. In \<open>AwaitingInput\<close> the
  loop is at the top of its body, in \<open>AwaitingContinuation\<close> it is before the last
  \<open>input\<close> of the body, in \<open>Done\<close> it has left the loop through \<open>break\<close>, and in \<open>Crashed e\<close>
  the exception \<open>e\<close> has left the program uncaught.
\<close>

datatype phase = AwaitingInput | AwaitingContinuation | Done | Crashed exn

record session =
  phase :: phase
  next_query :: "string option"
  world :: io

definition finished :: "session \<Rightarrow> bool" where
  "finished st = (case phase st of Done \<Rightarrow> True | Crashed e \<Rightarrow> True | _ \<Rightarrow> False)"

text \<open>
  advise.py and nigerian_advisor.py run the same loop text. They differ in phase 2 (the
  call of \<open>get_nigerian_advice\<close> and the display of its result) and in the wording of the
  continuation prompt, which are the parameters \<open>consult\<close> and \<open>continue_prompt\<close> here.
  Inside the \<open>try\<close> only \<open>input\<close> raises, and what it raises is \<open>EOFError\<close>, so the clause
  \<open>except Exception\<close> of the loop has nothing to catch.
\<close>

definition advisor_question :: "(string \<Rightarrow> io \<Rightarrow> io) \<Rightarrow> string \<Rightarrow> io \<Rightarrow> session" where
  \<comment> \<open>the body from the exit test of phase 1 up to the continuation prompt\<close>
  "advisor_question consult user_query s =
     (if lower user_query \<in> set [''quit'', ''exit'', ''q'']
      then \<lparr>phase = Done, next_query = None, world = print advisor_goodbye s\<rparr>
      else if user_query = []
      then \<lparr>phase = AwaitingInput, next_query = None, world = s\<rparr>
      else if lower user_query \<in> set GREETINGS
      then \<lparr>phase = AwaitingInput, next_query = None, world = prints advisor_welcome s\<rparr>
      else \<lparr>phase = AwaitingContinuation, next_query = None, world = consult user_query s\<rparr>)"

definition advisor_step ::
  "string \<Rightarrow> (string \<Rightarrow> io \<Rightarrow> io) \<Rightarrow> session \<Rightarrow> session" where
  "advisor_step continue_prompt consult st =
     (case phase st of
        AwaitingInput \<Rightarrow>
          (case pending (next_query st) of
             Some user_query \<Rightarrow>
               advisor_question consult user_query (print (Line (dashes 50)) (world st))
           | None \<Rightarrow>
               (case input advisor_prompt (world st) of
                  (Inr user_input, s) \<Rightarrow> advisor_question consult (strip user_input) s
                | (Inl e, s) \<Rightarrow>
                    \<lparr>phase = Done, next_query = None, world = print advisor_goodbye s\<rparr>))
      | AwaitingContinuation \<Rightarrow>
          (case input continue_prompt (world st) of
             (Inr l, s) \<Rightarrow>
               (let next_input = strip l in
                if next_input = []
                then \<lparr>phase = AwaitingInput, next_query = None, world = s\<rparr>
                else if lower next_input \<in> set [''no'', ''n'', ''quit'', ''exit'', ''q'']
                then \<lparr>phase = Done, next_query = None, world = print advisor_goodbye s\<rparr>
                else \<lparr>phase = AwaitingInput, next_query = Some next_input, world = s\<rparr>)
           | (Inl e, s) \<Rightarrow>
               \<lparr>phase = Done, next_query = None, world = print advisor_goodbye s\<rparr>)
      | Done \<Rightarrow> st
      | Crashed e \<Rightarrow> st)"

definition fuel :: "session \<Rightarrow> nat" where
  \<comment> \<open>bounds the steps a session can still take: a step reads a line, or uses up the
      pending question, or goes from the first prompt to the continuation prompt\<close>
  "fuel st =
     (if finished st then 0
      else 3 * length (stdin (world st))
           + (case phase st of
                AwaitingInput \<Rightarrow> (if pending (next_query st) \<noteq> None then 3 else 2)
              | _ \<Rightarrow> 1))"

lemma input_stdin:
  "input p s = (r, s') \<Longrightarrow>
     (case r of Inl e \<Rightarrow> stdin s = [] \<and> stdin s' = [] | Inr l \<Rightarrow> stdin s = l # stdin s')"
  by (auto simp: input_def print_def split: list.splits)

lemma stdin_print [simp]: "stdin (print l s) = stdin s"
  by (simp add: print_def)

lemma stdin_prints [simp]: "stdin (prints ls s) = stdin s"
  by (simp add: prints_def)

lemma stdin_tick [simp]: "stdin (tick s) = stdin s"
  by (simp add: tick_def)

lemma stdin_request [simp]: "stdin (snd (request svc c s)) = stdin s"
  by (simp add: request_def)

lemma stdin_advise_consult [simp]: "stdin (advise_consult svc q s) = stdin s"
  by (auto simp: advise_consult_def get_nigerian_advice_def request_def
           split: option.splits sum.splits prod.splits)

lemma stdin_advisor_consult [simp]: "stdin (advisor_consult svc q s) = stdin s"
  by (auto simp: advisor_consult_def get_nigerian_advice_basic_def request_def
           split: option.splits sum.splits prod.splits)

lemma fuel_Done [simp]: "fuel \<lparr>phase = Done, next_query = q, world = s\<rparr> = 0"
  by (simp add: fuel_def finished_def)

lemma fuel_Crashed [simp]: "fuel \<lparr>phase = Crashed e, next_query = q, world = s\<rparr> = 0"
  by (simp add: fuel_def finished_def)

lemma fuel_advisor_question:
  assumes "\<And>q s. stdin (consult q s) = stdin s"
  shows "fuel (advisor_question consult q s) \<le> 2 + 3 * length (stdin s)"
  using assms by (simp add: advisor_question_def fuel_def finished_def pending_def)

lemma fuel_advisor_step:
  assumes quiet: "\<And>q s. stdin (consult q s) = stdin s" and run: "\<not> finished st"
  shows "fuel (advisor_step cp consult st) < fuel st"
proof (cases "phase st")
  case AwaitingInput
  show ?thesis
  proof (cases "pending (next_query st)")
    case (Some q)
    have "fuel (advisor_step cp consult st) \<le> 2 + 3 * length (stdin (world st))"
      using fuel_advisor_question [of consult q "print (Line (dashes 50)) (world st)"] quiet
      by (simp add: advisor_step_def AwaitingInput Some)
    then show ?thesis
      using AwaitingInput Some by (simp add: fuel_def finished_def)
  next
    case None
    obtain r s where in1: "input advisor_prompt (world st) = (r, s)"
      by (cases "input advisor_prompt (world st)")
    show ?thesis
    proof (cases r)
      case (Inl e)
      then show ?thesis
        using AwaitingInput None in1 by (simp add: advisor_step_def fuel_def finished_def)
    next
      case (Inr l)
      then have "stdin (world st) = l # stdin s"
        using input_stdin [OF in1] by simp
      moreover have "fuel (advisor_step cp consult st) \<le> 2 + 3 * length (stdin s)"
        using fuel_advisor_question [of consult "strip l" s] quiet
        by (simp add: advisor_step_def AwaitingInput None in1 Inr)
      ultimately show ?thesis
        using AwaitingInput by (simp add: fuel_def finished_def)
    qed
  qed
next
  case AwaitingContinuation
  obtain r s where in1: "input cp (world st) = (r, s)"
    by (cases "input cp (world st)")
  show ?thesis
  proof (cases r)
    case (Inl e)
    then show ?thesis
      using AwaitingContinuation in1 by (simp add: advisor_step_def fuel_def finished_def)
  next
    case (Inr l)
    then have "stdin (world st) = l # stdin s"
      using input_stdin [OF in1] by simp
    then show ?thesis
      using AwaitingContinuation in1 Inr
      by (simp add: advisor_step_def fuel_def finished_def pending_def Let_def)
  qed
next
  case Done
  then show ?thesis using run by (simp add: finished_def)
next
  case (Crashed e)
  then show ?thesis using run by (simp add: finished_def)
qed

function advise_loop :: "DetailedBusinessAdvice bedrock \<Rightarrow> session \<Rightarrow> session" where
  \<comment> \<open>\<open>while True:\<close> of advise.py\<close>
  "advise_loop svc st =
     (if finished st then st
      else advise_loop svc (advisor_step detailed_continue_prompt (advise_consult svc) st))"
  by pat_completeness auto
termination
  by (relation "measure (\<lambda>(svc, st). fuel st)") (auto simp: fuel_advisor_step)

function advisor_loop :: "BusinessAdvice bedrock \<Rightarrow> session \<Rightarrow> session" where
  \<comment> \<open>\<open>while True:\<close> of nigerian_advisor.py\<close>
  "advisor_loop svc st =
     (if finished st then st
      else advisor_loop svc (advisor_step basic_continue_prompt (advisor_consult svc) st))"
  by pat_completeness auto
termination
  by (relation "measure (\<lambda>(svc, st). fuel st)") (auto simp: fuel_advisor_step)

definition start :: "string list \<Rightarrow> io" where
  \<comment> \<open>a fresh process whose stdin holds the given lines\<close>
  "start lines = \<lparr>stdin = lines, stdout = [], calls = [], clock = 0\<rparr>"

definition advise_main :: "DetailedBusinessAdvice bedrock \<Rightarrow> string list \<Rightarrow> session" where
  \<comment> \<open>the \<open>__main__\<close> block of advise.py\<close>
  "advise_main svc lines =
     advise_loop svc
       \<lparr>phase = AwaitingInput, next_query = None,
        world = prints [Line ''\<newline>--- Nigerian Business and Tax Advisor (Detailed) ---'',
                        Line ''Type 'quit' or 'exit' at any prompt to end the session.\<newline>'']
                  (start lines)\<rparr>"

definition advisor_main :: "BusinessAdvice bedrock \<Rightarrow> string list \<Rightarrow> session" where
  \<comment> \<open>the \<open>__main__\<close> block of nigerian_advisor.py\<close>
  "advisor_main svc lines =
     advisor_loop svc
       \<lparr>phase = AwaitingInput, next_query = None,
        world = prints [Line ''\<newline>--- Nigerian Business and Tax Advisor (Interactive) ---'',
                        Line ''Type 'quit' or 'exit' at any prompt to end the session.\<newline>'']
                  (start lines)\<rparr>"

definition chatbot_main :: "BusinessAdvice bedrock \<Rightarrow> string list \<Rightarrow> session" where
  \<comment> \<open>the \<open>__main__\<close> block of irrelevant/chatbot.py: one question, no loop, and the
      question goes to \<open>get_nigerian_advice\<close> as typed\<close>
  "chatbot_main svc lines =
     (case input advisor_prompt
             (prints [Line ''\<newline>--- Nigerian Business and Tax Advisor ---'',
                      Line ''Model: Meta Llama 3 70B Instruct''] (start lines)) of
        (Inl e, s) \<Rightarrow> \<lparr>phase = Crashed e, next_query = None, world = s\<rparr>
      | (Inr user_query, s) \<Rightarrow>
          (if strip user_query = []
           then \<lparr>phase = Done, next_query = None,
                 world = print (Line ''Query cannot be empty. Exiting.'') s\<rparr>
           else (case get_nigerian_advice_basic svc user_query s of
                   (advice_object, s') \<Rightarrow>
                     \<lparr>phase = Done, next_query = None,
                      world = prints [Line (''\<newline>'' @ equals 50),
                                      Line (upper (advice_title advice_object)),
                                      Line (equals 50),
                                      Line (advice advice_object)] s'\<rparr>)))"

section \<open>The tax calculator (nigerian_taxcalc.py)\<close>

subsection \<open>Tables and the runtime\<close>

text \<open>
  A cell of a pandas table is seen by the programs in two ways only: through
  \<open>astype(str)\<close>, which gives its text, and through \<open>float\<close>, which gives a number or
  raises (\<open>ValueError\<close> for a text that is no number, \<open>TypeError\<close> for a date). A cell is
  modelled by these two views.
\<close>

record cell =
  as_str :: string
  as_float :: "exn + pyfloat"

text \<open>
  A \<open>DataFrame\<close>: the column labels in declared order (as \<open>str(col)\<close> renders them; the
  reader makes them distinct), the number of rows, and the cell of a column at a row
  position.
\<close>

record dataframe =
  columns :: "string list"
  nrows :: nat
  iloc :: "string \<Rightarrow> nat \<Rightarrow> cell"

text \<open>
  What the programs take from pandas and from the Python runtime: reading a file at a
  given time, the rendering \<open>df.to_string(index=False)\<close>, the formats \<open>{x:,.2f}\<close> and
  \<open>{x:.1f}\<close>, \<open>float(s)\<close> on a string (\<open>None\<close> when it raises \<open>ValueError\<close>) and the
  subtraction of floats.
\<close>

record pylib =
  read_csv :: "nat \<Rightarrow> string \<Rightarrow> exn + dataframe"
  read_excel :: "nat \<Rightarrow> string \<Rightarrow> exn + dataframe"
  to_string :: "dataframe \<Rightarrow> string"
  format_2f :: "pyfloat \<Rightarrow> string"
  format_1f :: "pyfloat \<Rightarrow> string"
  parse_float :: "string \<Rightarrow> pyfloat option"
  float_sub :: "pyfloat \<Rightarrow> pyfloat \<Rightarrow> pyfloat"

subsection \<open>Schema\<close>

datatype compliance_status =
    COMPLIANT_Paid_in_Full
  | NON_COMPLIANT_Underpaid
  | OVERPAID_Refund_Due
  | UNKNOWN_Check_Data

fun compliance_status_str :: "compliance_status \<Rightarrow> string" where
  "compliance_status_str COMPLIANT_Paid_in_Full = ''COMPLIANT (Paid in Full)''"
| "compliance_status_str NON_COMPLIANT_Underpaid = ''NON_COMPLIANT (Underpaid)''"
| "compliance_status_str OVERPAID_Refund_Due = ''OVERPAID (Refund Due)''"
| "compliance_status_str UNKNOWN_Check_Data = ''UNKNOWN (Check Data)''"

record TaxCalculationResult =
  taxable_profit :: pyfloat
  cit_rate_applied :: pyfloat
  cit_liability :: pyfloat
  education_tax_liability :: pyfloat
  total_profit_tax_due :: pyfloat
  profit_tax_paid_by_user :: pyfloat
  profit_tax_payment_status_amount :: pyfloat
  vat_output_collected :: pyfloat
  vat_input_paid :: pyfloat
  vat_remittable_due :: pyfloat
  compliance_status :: compliance_status
  compliance_recommendation :: string
  business_growth_advice :: string

subsection \<open>load_financial_data\<close>

definition metric_col_names :: "string list" where
  "metric_col_names = [''metric'', ''item'', ''description'', ''particulars'', ''details'']"

definition amount_col_names :: "string list" where
  "amount_col_names = [''amount'', ''value'', ''ngn'', ''total'', ''cost'']"

definition header_matches :: "string list \<Rightarrow> string \<Rightarrow> bool" where
  \<comment> \<open>\<open>any(name in str(col).lower() for name in names)\<close>\<close>
  "header_matches names col = list_ex (\<lambda>name. contains (lower col) name) names"

definition find_column :: "string list \<Rightarrow> dataframe \<Rightarrow> string option" where
  \<comment> \<open>\<open>next((col for col in df.columns if any(...)), None)\<close>\<close>
  "find_column names df = find (header_matches names) (columns df)"

text \<open>
  \<open>Series.str.contains(keyword, case=False, na=False)\<close> searches each label for the
  keyword as a regular expression compiled with \<open>re.IGNORECASE\<close>. Every keyword of the
  programs is made of ASCII letters and blanks, so the expression is the sequence of its
  characters, and the search looks for a place of the label where each character of the
  keyword matches in turn. Under \<open>re.IGNORECASE\<close> a letter of the keyword matches itself,
  its other case and every character with the same case folding: for \<open>i\<close> these are also
  U+0130 and U+0131, for \<open>s\<close> also U+017F, for \<open>k\<close> also U+212A; the other ASCII letters
  have no such character, and a blank matches itself only. The characters outside the
  ASCII range stand in a label as their UTF-8 bytes.
\<close>

definition ignorecase :: "char \<Rightarrow> string list" where
  \<comment> \<open>the texts that one character of the pattern matches under \<open>re.IGNORECASE\<close>\<close>
  "ignorecase c =
     [[lower_char c], [upper_char c]]
     @ (if lower_char c = CHR ''i'' then [[CHR 0xC4, CHR 0xB0], [CHR 0xC4, CHR 0xB1]] else [])
     @ (if lower_char c = CHR ''s'' then [[CHR 0xC5, CHR 0xBF]] else [])
     @ (if lower_char c = CHR ''k'' then [[CHR 0xE2, CHR 0x84, CHR 0xAA]] else [])"

fun match_at :: "string \<Rightarrow> string \<Rightarrow> bool" where
  \<comment> \<open>\<open>re.match(pattern, text, re.IGNORECASE)\<close> for a pattern of letters and blanks\<close>
  "match_at [] text = True"
| "match_at (c # cs) text =
     list_ex (\<lambda>alt. prefix alt text \<and> match_at cs (drop (length alt) text)) (ignorecase c)"

fun search :: "string \<Rightarrow> string \<Rightarrow> bool" where
  \<comment> \<open>\<open>re.search(pattern, text, re.IGNORECASE)\<close>: a match at some place of the text\<close>
  "search pattern [] = match_at pattern []"
| "search pattern (t # ts) = (match_at pattern (t # ts) \<or> search pattern ts)"

definition label_contains :: "string \<Rightarrow> cell \<Rightarrow> bool" where
  \<comment> \<open>one entry of \<open>df[metric_col].astype(str).str.contains(keyword, case=False, na=False)\<close>\<close>
  "label_contains keyword c = search keyword (as_str c)"

definition matching_rows :: "dataframe \<Rightarrow> string \<Rightarrow> string \<Rightarrow> nat list" where
  \<comment> \<open>the positions of the rows that \<open>df[mask]\<close> keeps, in order\<close>
  "matching_rows df metric_col keyword =
     filter (\<lambda>i. label_contains keyword (iloc df metric_col i)) [0..<nrows df]"

fun find_value :: "dataframe \<Rightarrow> string \<Rightarrow> string \<Rightarrow> string list \<Rightarrow> exn + pyfloat" where
  \<comment> \<open>the local function of \<open>load_financial_data\<close>, with the variables it captures
      (both columns are columns of the table where it is called)\<close>
  "find_value df metric_col amount_col [] = Inr (Fin 0)"
| "find_value df metric_col amount_col (keyword # keywords) =
     (case matching_rows df metric_col keyword of
        [] \<Rightarrow> find_value df metric_col amount_col keywords
      | i # _ \<Rightarrow> as_float (iloc df amount_col i))"

definition revenue_keywords :: "string list" where
  "revenue_keywords = [''total revenue'', ''revenue'', ''sales'']"

definition profit_tax_keywords :: "string list" where
  "profit_tax_keywords = [''profit tax paid'', ''cit paid'', ''tax paid'']"

definition output_vat_keywords :: "string list" where
  "output_vat_keywords = [''output vat'', ''vat collected'', ''vat on sales'']"

definition input_vat_keywords :: "string list" where
  "input_vat_keywords = [''input vat'', ''vat paid on inputs'', ''vat on purchases'']"

definition unsupported_format :: exn where
  "unsupported_format =
     ValueError ''Unsupported file format. Please use a .csv or .xlsx file.''"

definition columns_not_found :: exn where
  "columns_not_found =
     KeyError (''Could not identify the Metric or Amount columns in the file. Please ensure ''
               @ ''one column is labeled like 'Metric' or 'Description' and another ''
               @ ''like 'Amount' or 'NGN'.'')"

definition revenue_missing :: exn where
  "revenue_missing =
     ValueError ''Could not locate a row labeled 'Revenue' or 'Sales' in the data.''"

definition read_table :: "pylib \<Rightarrow> nat \<Rightarrow> string \<Rightarrow> exn + dataframe" where
  \<comment> \<open>the choice of the reader by the extension of the path\<close>
  "read_table lib t filepath =
     (if endswith (lower filepath) ''.csv'' then read_csv lib t filepath
      else if endswith (lower filepath) ''.xlsx'' \<or> endswith (lower filepath) ''.xls''
      then read_excel lib t filepath
      else Inl unsupported_format)"

definition extract_values ::
  "dataframe \<Rightarrow> exn + dataframe \<times> pyfloat \<times> pyfloat \<times> pyfloat \<times> pyfloat" where
  \<comment> \<open>the \<open>try\<close> block of \<open>load_financial_data\<close> after the file is read\<close>
  "extract_values df =
     (case (pending (find_column metric_col_names df),
            pending (find_column amount_col_names df)) of
        (Some metric_col, Some amount_col) \<Rightarrow>
          (case find_value df metric_col amount_col revenue_keywords of
             Inl e \<Rightarrow> Inl e
           | Inr total_revenue \<Rightarrow>
               if float_eq total_revenue (Fin 0) then Inl revenue_missing
               else
                 (case find_value df metric_col amount_col profit_tax_keywords of
                    Inl e \<Rightarrow> Inl e
                  | Inr profit_tax_paid \<Rightarrow>
                      (case find_value df metric_col amount_col output_vat_keywords of
                         Inl e \<Rightarrow> Inl e
                       | Inr output_vat \<Rightarrow>
                           (case find_value df metric_col amount_col input_vat_keywords of
                              Inl e \<Rightarrow> Inl e
                            | Inr input_vat \<Rightarrow>
                                Inr (df, total_revenue, profit_tax_paid, output_vat,
                                     input_vat)))))
      | _ \<Rightarrow> Inl columns_not_found)"

type_synonym loaded = "dataframe option \<times> pyfloat option \<times> pyfloat \<times> pyfloat \<times> pyfloat"

definition load_failure :: loaded where
  \<comment> \<open>\<open>None, None, 0.0, 0.0, 0.0\<close>\<close>
  "load_failure = (None, None, Fin 0, Fin 0, Fin 0)"

fun load_error_line :: "string \<Rightarrow> exn \<Rightarrow> out" where
  \<comment> \<open>what the \<open>except\<close> clause that catches the exception prints\<close>
  "load_error_line filepath FileNotFoundError =
     Line (''ERROR: File not found at path: '' @ filepath)"
| "load_error_line filepath (KeyError m) =
     ExnLine ''ERROR: Column identification error. '' (KeyError m) []"
| "load_error_line filepath (ValueError m) =
     ExnLine ''ERROR: Data or format error: '' (ValueError m) []"
| "load_error_line filepath e =
     ExnLine ''An unexpected error occurred while reading the file: '' e []"

definition load_financial_data :: "pylib \<Rightarrow> string \<Rightarrow> io \<Rightarrow> loaded \<times> io" where
  "load_financial_data lib filepath s =
     (case (case read_table lib (clock s) filepath of Inl e \<Rightarrow> Inl e | Inr df \<Rightarrow> extract_values df) of
        Inr (df, total_revenue, profit_tax_paid, output_vat, input_vat) \<Rightarrow>
          ((Some df, Some total_revenue, profit_tax_paid, output_vat, input_vat), tick s)
      | Inl e \<Rightarrow> (load_failure, print (load_error_line filepath e) (tick s)))"

subsection \<open>calculate_tax_and_assess\<close>

definition get_fallback_response :: "string \<Rightarrow> pyfloat \<Rightarrow> TaxCalculationResult" where
  \<comment> \<open>the second parameter has the default \<open>0.0\<close> in the source\<close>
  "get_fallback_response recommendation profit_tax_paid =
     \<lparr> taxable_profit = Fin 0,
       cit_rate_applied = Fin 0,
       cit_liability = Fin 0,
       education_tax_liability = Fin 0,
       total_profit_tax_due = Fin 0,
       profit_tax_paid_by_user = profit_tax_paid,
       profit_tax_payment_status_amount = Fin 0,
       vat_output_collected = Fin 0,
       vat_input_paid = Fin 0,
       vat_remittable_due = Fin 0,
       compliance_status = UNKNOWN_Check_Data,
       compliance_recommendation = recommendation,
       business_growth_advice = ''N/A. Cannot provide business advice due to error.'' \<rparr>"

definition tax_user_query ::
  "pylib \<Rightarrow> string \<Rightarrow> string \<Rightarrow> pyfloat \<Rightarrow> pyfloat \<Rightarrow> pyfloat \<Rightarrow> pyfloat \<Rightarrow> string" where
  \<comment> \<open>the f-string \<open>user_query\<close>\<close>
  "tax_user_query lib business_size financial_data_str total_revenue profit_tax_paid
       output_vat input_vat =
     ''\<newline>    Please calculate the tax liabilities, audit compliance, and provide business ''
     @ ''advice for a Nigerian company of '' @ apostrophe @ business_size @ apostrophe
     @ '' size using the following financial statement data (Amounts in NGN).\<newline>''
     @ ''\<newline>    --- FINANCIAL DATA (RAW) ---\<newline>    '' @ financial_data_str
     @ ''\<newline>    ---\<newline>    \<newline>    --- KEY EXTRACTED VALUES ---''
     @ ''\<newline>    Total Revenue: '' @ format_2f lib total_revenue @ '' NGN''
     @ ''\<newline>    Profit Tax Paid by User: '' @ format_2f lib profit_tax_paid @ '' NGN''
     @ ''\<newline>    Output VAT (VAT on Sales): '' @ format_2f lib output_vat @ '' NGN''
     @ ''\<newline>    Input VAT (VAT on Purchases): '' @ format_2f lib input_vat @ '' NGN''
     @ ''\<newline>    ---\<newline>\<newline>    Follow all the Nigerian tax rules and advisory ''
     @ ''instructions provided in the system prompt exactly and return ONLY the JSON ''
     @ ''object.\<newline>    ''"

definition tax_content :: "string \<Rightarrow> string \<Rightarrow> string" where
  \<comment> \<open>\<open>f"{SYSTEM_PROMPT}\n\n{user_query}"\<close>\<close>
  "tax_content policy user_query = policy @ ''\<newline>\<newline>'' @ user_query"

definition calculate_tax_and_assess ::
  "pylib \<Rightarrow> TaxCalculationResult bedrock \<Rightarrow> string \<Rightarrow> string \<Rightarrow> io
     \<Rightarrow> (exn + TaxCalculationResult) \<times> io" where
  "calculate_tax_and_assess lib svc business_size filepath s =
     (case load_financial_data lib filepath s of
        ((None, total_revenue, profit_tax_paid, output_vat, input_vat), s1) \<Rightarrow>
          (Inr (get_fallback_response
                  ''Data loading failed. Check file path, existence, and column names.''
                  (Fin 0)), s1)
      | ((Some financial_data, total_revenue, profit_tax_paid, output_vat, input_vat), s1) \<Rightarrow>
          (case from_bedrock svc (clock s1) of
             Some e \<Rightarrow>
               (Inr (get_fallback_response
                       (''AWS setup or connectivity failed. Check credentials and Bedrock ''
                        @ ''access in region '' @ AWS_REGION svc @ ''.'')
                       (Fin 0)), tick s1)
           | None \<Rightarrow>
               (case total_revenue of
                  None \<Rightarrow>
                    (Inl (TypeError ''unsupported format string passed to NoneType.__format__''),
                     tick s1)
                | Some revenue \<Rightarrow>
                    (case request svc
                            (tax_content (SYSTEM_PROMPT svc)
                               (tax_user_query lib business_size
                                  (to_string lib financial_data) revenue profit_tax_paid
                                  output_vat input_vat))
                            (print (Line (''\<newline>-> Calculating tax & generating advice for ''
                                          @ business_size @ '' company (Llama 3 70B)...''))
                               (tick s1)) of
                       (Inr result_object, s2) \<Rightarrow> (Inr result_object, s2)
                     | (Inl e, s2) \<Rightarrow>
                         (Inr (get_fallback_response
                                 (''API request failed. Check model permissions and AWS ''
                                  @ ''access for Llama 3 70B.'')
                                 profit_tax_paid),
                          print (ApiLine ''An API/Calculation error occurred: '' e) s2)))))"

subsection \<open>The interactive loop of the tax calculator\<close>

definition naira :: string where
  \<comment> \<open>the currency sign in \<open>format_currency\<close>\<close>
  "naira = [CHR 0xE2, CHR 0x82, CHR 0xA6]"

definition flag :: string where
  \<comment> \<open>the flag in the banner\<close>
  "flag = [CHR 0xF0, CHR 0x9F, CHR 0x87, CHR 0xB3, CHR 0xF0, CHR 0x9F, CHR 0x87, CHR 0xAC]"

definition format_currency :: "pylib \<Rightarrow> pyfloat \<Rightarrow> string" where
  "format_currency lib amount = naira @ format_2f lib amount"

definition tax_goodbye :: out where
  "tax_goodbye = Line ''Exiting calculator. Goodbye!''"

definition show_tax_result :: "pylib \<Rightarrow> string \<Rightarrow> TaxCalculationResult \<Rightarrow> out list" where
  \<comment> \<open>the display of the result, from the heading to the closing rule\<close>
  "show_tax_result lib business_size result =
     [Line (''\<newline>'' @ equals 60),
      Line (''| TAX & BUSINESS ASSESSMENT FOR '' @ business_size @ '' COMPANY |''),
      Line (equals 60)]
     @ (if contains (lower (compliance_recommendation result)) ''failed''
           \<or> contains (lower (compliance_status_str (compliance_status result))) ''check data''
        then [Line (''SYSTEM ERROR: '' @ compliance_recommendation result),
              Line (''BUSINESS ADVICE: '' @ business_growth_advice result)]
        else
          [Line ''--- PROFIT TAX CALCULATION (Annual) ---'',
           Line (''  > Taxable Profit:        '' @ format_currency lib (taxable_profit result)),
           Line (''  > CIT Rate Applied:      '' @ format_1f lib (cit_rate_applied result) @ ''%''),
           Line (''  > CIT Liability:         '' @ format_currency lib (cit_liability result)),
           Line (''  > TET Liability (3%):    ''
                 @ format_currency lib (education_tax_liability result)),
           Line (dashes 60),
           Line (''  > TOTAL PROFIT TAX DUE:  ''
                 @ format_currency lib (total_profit_tax_due result)),
           Line (''  > PROFIT TAX PAID:       ''
                 @ format_currency lib (profit_tax_paid_by_user result)),
           Line (dashes 60),
           Line (''  > PAYMENT STATUS:        ''
                 @ format_currency lib (profit_tax_payment_status_amount result)
                 @ (if float_lt (profit_tax_payment_status_amount result) (Fin 0)
                    then '' (Underpaid)''
                    else if float_lt (Fin 0) (profit_tax_payment_status_amount result)
                    then '' (Overpaid)''
                    else '' (Paid in Full)'')),
           Line (equals 60),
           Line ''\<newline>--- VAT CALCULATION (Monthly) ---'',
           Line (''  > Output VAT (On Sales): ''
                 @ format_currency lib (vat_output_collected result)),
           Line (''  > Input VAT (On Purchases):'' @ format_currency lib (vat_input_paid result)),
           Line (dashes 60),
           Line (''  > VAT REMITTABLE TO FIRS:''
                 @ format_currency lib (vat_remittable_due result)),
           Line (equals 60),
           Line ''\<newline>--- TAX COMPLIANCE ---'',
           Line (''PROFIT TAX STATUS: '' @ compliance_status_str (compliance_status result)),
           Line (''\<newline>RECOMMENDATION (Tax):\<newline>'' @ compliance_recommendation result),
           Line (''\<newline>'' @ equals 60),
           Line ''\<newline>--- BUSINESS GROWTH ADVICE ---'',
           Line (business_growth_advice result)])
     @ [Line (''\<newline>'' @ equals 60)]"

definition tax_path_prompt :: string where
  "tax_path_prompt = ''Enter the path to your CSV or Excel (.xlsx) file, or 'exit': ''"

definition tax_size_prompt :: string where
  "tax_size_prompt = ''Enter business size for context (MEDIUM or LARGE): ''"

definition tax_continue_prompt :: string where
  "tax_continue_prompt = ''Press Enter to run another calculation, or type 'no' to exit: ''"

definition crashed :: "exn \<Rightarrow> io \<Rightarrow> session" where
  \<comment> \<open>an exception that no handler of the program catches\<close>
  "crashed e s = \<lparr>phase = Crashed e, next_query = None, world = s\<rparr>"

definition at_phase :: "phase \<Rightarrow> io \<Rightarrow> session" where
  \<comment> \<open>a point of a loop that keeps no pending question\<close>
  "at_phase p s = \<lparr>phase = p, next_query = None, world = s\<rparr>"

text \<open>
  The loop of nigerian_taxcalc.py has no \<open>try\<close>: an \<open>EOFError\<close> of any of its three
  \<open>input\<close> calls, or an exception of \<open>calculate_tax_and_assess\<close>, leaves the program.
\<close>

definition tax_step ::
  "pylib \<Rightarrow> TaxCalculationResult bedrock \<Rightarrow> session \<Rightarrow> session" where
  "tax_step lib svc st =
     (case phase st of
        AwaitingInput \<Rightarrow>
          (case input tax_path_prompt (print (Line (dashes 60)) (world st)) of
             (Inl e, s) \<Rightarrow> crashed e s
           | (Inr l, s) \<Rightarrow>
               (let filepath = strip l in
                if lower filepath \<in> set [''exit'', ''quit'', ''q'']
                then at_phase Done (print tax_goodbye s)
                else
                  (case input tax_size_prompt s of
                     (Inl e, s1) \<Rightarrow> crashed e s1
                   | (Inr l1, s1) \<Rightarrow>
                       (let business_size = upper (strip l1) in
                        if business_size \<notin> set [''MEDIUM'', ''LARGE'']
                        then at_phase AwaitingInput
                               (print (Line (''Invalid business size. Please enter ''
                                             @ apostrophe @ ''MEDIUM' or 'LARGE'.'')) s1)
                        else
                          (case calculate_tax_and_assess lib svc business_size filepath s1 of
                             (Inl e, s2) \<Rightarrow> crashed e s2
                           | (Inr result, s2) \<Rightarrow>
                               at_phase AwaitingContinuation
                                 (prints (show_tax_result lib business_size result) s2))))))
      | AwaitingContinuation \<Rightarrow>
          (case input tax_continue_prompt (world st) of
             (Inl e, s) \<Rightarrow> crashed e s
           | (Inr l, s) \<Rightarrow>
               (if lower (strip l) \<in> set [''no'', ''n'', ''quit'', ''exit'']
                then at_phase Done (print tax_goodbye s)
                else at_phase AwaitingInput s))
      | Done \<Rightarrow> st
      | Crashed e \<Rightarrow> st)"

lemma stdin_load_financial_data [simp]:
  "stdin (snd (load_financial_data lib filepath s)) = stdin s"
  by (simp add: load_financial_data_def split: sum.splits prod.splits)

lemma stdin_calculate_tax_and_assess [simp]:
  "stdin (snd (calculate_tax_and_assess lib svc business_size filepath s)) = stdin s"
proof -
  obtain r s1 where l: "load_financial_data lib filepath s = (r, s1)"
    by (cases "load_financial_data lib filepath s")
  then have "stdin s1 = stdin s"
    using stdin_load_financial_data [of lib filepath s] by simp
  then show ?thesis
    by (auto simp: calculate_tax_and_assess_def l request_def
             split: option.splits sum.splits prod.splits)
qed

lemma fuel_crashed [simp]: "fuel (crashed e s) = 0"
  by (simp add: crashed_def)

lemma fuel_at_phase: "fuel (at_phase p s) \<le> 3 * length (stdin s) + 2"
  by (cases p) (simp_all add: at_phase_def fuel_def finished_def pending_def)

lemma fuel_at_Done [simp]: "fuel (at_phase Done s) = 0"
  by (simp add: at_phase_def)

lemma fuel_at_AwaitingContinuation [simp]:
  "fuel (at_phase AwaitingContinuation s) = 3 * length (stdin s) + 1"
  by (simp add: at_phase_def fuel_def finished_def)

lemma fuel_at_AwaitingInput [simp]:
  "fuel (at_phase AwaitingInput s) = 3 * length (stdin s) + 2"
  by (simp add: at_phase_def fuel_def finished_def pending_def)

lemma fuel_unfinished:
  "\<not> finished st \<Longrightarrow> 3 * length (stdin (world st)) < fuel st"
  by (cases "phase st") (simp_all add: fuel_def finished_def)

lemma input_shorter:
  "input p s = (Inr l, s') \<Longrightarrow> Suc (length (stdin s')) = length (stdin s)"
  by (auto simp: input_def print_def split: list.splits)

lemma input_not_longer:
  "input p s = (r, s') \<Longrightarrow> length (stdin s') \<le> length (stdin s)"
  by (auto simp: input_def print_def split: list.splits)

lemma fuel_tax_step:
  assumes run: "\<not> finished st"
  shows "fuel (tax_step lib svc st) < fuel st"
proof (cases "phase st")
  case AwaitingInput
  obtain r s where in1: "input tax_path_prompt (print (Line (dashes 60)) (world st)) = (r, s)"
    by (cases "input tax_path_prompt (print (Line (dashes 60)) (world st))")
  show ?thesis
  proof (cases r)
    case (Inl e)
    then have "fuel (tax_step lib svc st) = 0"
      using AwaitingInput in1 by (simp add: tax_step_def)
    then show ?thesis
      using fuel_unfinished [OF run] by simp
  next
    case (Inr l)
    then have len: "Suc (length (stdin s)) = length (stdin (world st))"
      using input_shorter [of tax_path_prompt "print (Line (dashes 60)) (world st)" l s] in1
      by simp
    obtain r1 s1 where in2: "input tax_size_prompt s = (r1, s1)"
      by (cases "input tax_size_prompt s")
    have len1: "length (stdin s1) \<le> length (stdin s)"
      using input_not_longer [OF in2] .
    obtain c s2 where calc:
      "calculate_tax_and_assess lib svc (upper (strip (projr r1))) (strip l) s1 = (c, s2)"
      by (cases "calculate_tax_and_assess lib svc (upper (strip (projr r1))) (strip l) s1")
    have len2: "stdin s2 = stdin s1"
      using stdin_calculate_tax_and_assess [of lib svc "upper (strip (projr r1))" "strip l" s1]
      by (simp add: calc)
    have "fuel (tax_step lib svc st) \<le> 3 * length (stdin s) + 2"
      using AwaitingInput in1 Inr in2 len1 len2 calc
      by (cases r1; cases c) (auto simp: tax_step_def Let_def)
    then show ?thesis
      using len fuel_unfinished [OF run] by simp
  qed
next
  case AwaitingContinuation
  obtain r s where in1: "input tax_continue_prompt (world st) = (r, s)"
    by (cases "input tax_continue_prompt (world st)")
  show ?thesis
  proof (cases r)
    case (Inl e)
    then have "fuel (tax_step lib svc st) = 0"
      using AwaitingContinuation in1 by (simp add: tax_step_def)
    then show ?thesis
      using fuel_unfinished [OF run] by simp
  next
    case (Inr l)
    then have "Suc (length (stdin s)) = length (stdin (world st))"
      using input_shorter [of tax_continue_prompt "world st" l s] in1 by simp
    moreover have "fuel (tax_step lib svc st) \<le> 3 * length (stdin s) + 2"
      using AwaitingContinuation in1 Inr by (simp add: tax_step_def)
    ultimately show ?thesis
      using fuel_unfinished [OF run] by simp
  qed
next
  case Done
  then show ?thesis using run by (simp add: finished_def)
next
  case (Crashed e)
  then show ?thesis using run by (simp add: finished_def)
qed

function tax_loop ::
  "pylib \<Rightarrow> TaxCalculationResult bedrock \<Rightarrow> session \<Rightarrow> session" where
  \<comment> \<open>\<open>while True:\<close> of nigerian_taxcalc.py\<close>
  "tax_loop lib svc st =
     (if finished st then st else tax_loop lib svc (tax_step lib svc st))"
  by pat_completeness auto
termination
  by (relation "measure (\<lambda>(lib, svc, st). fuel st)") (auto simp: fuel_tax_step)

definition tax_main ::
  "pylib \<Rightarrow> TaxCalculationResult bedrock \<Rightarrow> string list \<Rightarrow> session" where
  \<comment> \<open>the \<open>__main__\<close> block of nigerian_taxcalc.py\<close>
  "tax_main lib svc lines =
     tax_loop lib svc
       (at_phase AwaitingInput
          (prints [Line (''--- '' @ flag @ '' Nigerian Corporate Tax & Business Advisor ''
                         @ ''(File Uploader) ---''),
                   Line (''Processes CSV or Excel data using AI to calculate tax liabilities ''
                         @ ''and give growth advice.'')]
             (start lines)))"

section \<open>The earlier tax calculator (irrelevant/taxcalc.py)\<close>

text \<open>
  \<open>load_financial_data\<close> of irrelevant/taxcalc.py resolves the two columns with the same
  code. The local variable \<open>total_revenue\<close> is assigned only under
  \<open>if metric_col and amount_col:\<close>, the \<open>KeyError\<close> with the message about the columns is
  raised in the \<open>else\<close> of the test for a revenue row, and the \<open>return\<close> reads the variable
  in every case.
\<close>

definition taxcalc_revenue_rows :: "dataframe \<Rightarrow> string \<Rightarrow> nat list" where
  \<comment> \<open>the rows kept by \<open>str.contains('revenue|sales', case=False, na=False)\<close>\<close>
  "taxcalc_revenue_rows df metric_col =
     filter (\<lambda>i. label_contains ''revenue'' (iloc df metric_col i)
                \<or> label_contains ''sales'' (iloc df metric_col i)) [0..<nrows df]"

definition taxcalc_extract :: "dataframe \<Rightarrow> exn + dataframe \<times> pyfloat" where
  \<comment> \<open>the \<open>try\<close> block after the file is read; \<open>None\<close> stands for the unassigned variable\<close>
  "taxcalc_extract df =
     (case (case (pending (find_column metric_col_names df),
                  pending (find_column amount_col_names df)) of
              (Some metric_col, Some amount_col) \<Rightarrow>
                (case taxcalc_revenue_rows df metric_col of
                   [] \<Rightarrow> Inl columns_not_found
                 | i # _ \<Rightarrow> Inr (Some (iloc df amount_col i)))
            | _ \<Rightarrow> Inr None) of
        Inl e \<Rightarrow> Inl e
      | Inr None \<Rightarrow>
          Inl (UnboundLocalError
                 ''cannot access local variable 'total_revenue' where it is not associated with a value'')
      | Inr (Some total_revenue) \<Rightarrow>
          (case as_float total_revenue of Inl e \<Rightarrow> Inl e | Inr r \<Rightarrow> Inr (df, r)))"

definition taxcalc_load_financial_data ::
  "pylib \<Rightarrow> string \<Rightarrow> io \<Rightarrow> (dataframe option \<times> pyfloat option) \<times> io" where
  "taxcalc_load_financial_data lib filepath s =
     (case (case read_table lib (clock s) filepath of
              Inl e \<Rightarrow> Inl e
            | Inr df \<Rightarrow> taxcalc_extract df) of
        Inr (df, total_revenue) \<Rightarrow> ((Some df, Some total_revenue), tick s)
      | Inl e \<Rightarrow> ((None, None), print (load_error_line filepath e) (tick s)))"

section \<open>The business analyst (analyst.py)\<close>

record BusinessAnalysisReport =
  profitability_analysis :: string
  growth_and_future_projection :: string
  business_efficiency_analysis :: string
  estimated_business_valuation :: string
  tax_compliance_overview :: string
  loan_eligibility_assessment :: string
  actionable_advice :: "string list"

text \<open>The dictionary \<open>user_data_payload\<close>, with its five keys.\<close>

record user_data =
  industry :: string
  revenue :: pyfloat
  total_costs :: pyfloat
  bank_balance :: pyfloat
  net_profit :: pyfloat

definition MODEL_ID :: string where
  "MODEL_ID = ''meta.llama3-70b-instruct-v1:0''"

definition data_string :: "pylib \<Rightarrow> user_data \<Rightarrow> string" where
  \<comment> \<open>the f-string \<open>data_string\<close>\<close>
  "data_string lib d =
     ''\<newline>        --- USER FINANCIAL DATA (1 Month) ---''
     @ ''\<newline>        Industry: '' @ industry d
     @ ''\<newline>        Monthly Revenue: '' @ format_2f lib (revenue d) @ '' NGN''
     @ ''\<newline>        Total Monthly Costs: '' @ format_2f lib (total_costs d) @ '' NGN''
     @ ''\<newline>        Current Bank Account Balance: '' @ format_2f lib (bank_balance d)
     @ '' NGN''
     @ ''\<newline>        ---''
     @ ''\<newline>        Calculated Net Profit/Loss: '' @ format_2f lib (net_profit d) @ '' NGN''
     @ ''\<newline>        ---\<newline>        ''"

definition analysis_query :: "string \<Rightarrow> string \<Rightarrow> string" where
  \<comment> \<open>\<open>f"{SYSTEM_PROMPT}\n\nAnalyze the following data:\n{data_string}"\<close>\<close>
  "analysis_query policy text =
     policy @ ''\<newline>\<newline>Analyze the following data:\<newline>'' @ text"

definition analysis_fallback :: BusinessAnalysisReport where
  \<comment> \<open>the object built in the \<open>except\<close> branch of \<open>get_business_analysis\<close>\<close>
  "analysis_fallback =
     \<lparr> profitability_analysis = ''Error: Could not generate analysis. API connection failed.'',
       growth_and_future_projection = ''N/A'',
       business_efficiency_analysis = ''N/A'',
       estimated_business_valuation = ''N/A'',
       tax_compliance_overview =
         ''N/A. Check AWS credentials and model access for Llama 3 70B.'',
       loan_eligibility_assessment = ''N/A'',
       actionable_advice = [''API connection failed.''] \<rparr>"

definition get_business_analysis ::
  "pylib \<Rightarrow> BusinessAnalysisReport bedrock \<Rightarrow> user_data \<Rightarrow> io
     \<Rightarrow> BusinessAnalysisReport \<times> io" where
  \<comment> \<open>the whole body is inside the \<open>try\<close>\<close>
  "get_business_analysis lib svc d s =
     (case from_bedrock svc (clock s) of
        Some e \<Rightarrow>
          (analysis_fallback,
           print (ApiLine ''\<newline>An API/Connection error occurred: '' e) (tick s))
      | None \<Rightarrow>
          (case request svc (analysis_query (SYSTEM_PROMPT svc) (data_string lib d))
                  (print (Line (''\<newline>-> Analyzing data with '' @ MODEL_ID @ ''...''))
                     (tick s)) of
             (Inr report_object, s') \<Rightarrow> (report_object, s')
           | (Inl e, s') \<Rightarrow>
               (analysis_fallback,
                print (ApiLine ''\<newline>An API/Connection error occurred: '' e) s')))"

function get_numeric_input :: "pylib \<Rightarrow> string \<Rightarrow> io \<Rightarrow> pyfloat outcome \<times> io" where
  \<comment> \<open>\<open>while True:\<close> around one \<open>input\<close>; \<open>SystemExit\<close> is the outcome \<open>Exit\<close>\<close>
  "get_numeric_input lib prompt s =
     (case input prompt s of
        (Inl e, s') \<Rightarrow> (Raise e, s')
      | (Inr l, s') \<Rightarrow>
          (let user_input = lower (strip l) in
           if user_input \<in> set [''quit'', ''exit'', ''q'']
           then (Exit ''Exiting analyst tool. Goodbye!'', s')
           else
             (case parse_float lib (remove_char CHR '','' user_input) of
                None \<Rightarrow>
                  get_numeric_input lib prompt
                    (print (Line ''Invalid input. Please enter a numeric value (e.g., 500000).'')
                       s')
              | Some v \<Rightarrow>
                  if float_lt v (Fin 0)
                  then get_numeric_input lib prompt
                         (print (Line ''Value cannot be negative. Please try again.'') s')
                  else (Value v, s'))))"
  by pat_completeness auto
termination
  by (relation "measure (\<lambda>(lib, prompt, s). length (stdin s))")
     (auto simp: input_def print_def split: list.splits)

declare get_numeric_input.simps [simp del]

definition garbled_naira :: string where
  \<comment> \<open>the bytes before the amounts in the data summary\<close>
  "garbled_naira = [CHR 0xC3, CHR 0xA2, CHR 0xE2, CHR 0x80, CHR 0x9A, CHR 0xC2, CHR 0xA6]"

definition garbled_flag :: string where
  \<comment> \<open>the bytes in the banner\<close>
  "garbled_flag =
     [CHR 0xC3, CHR 0xB0, CHR 0xC5, CHR 0xB8, CHR 0xE2, CHR 0x80, CHR 0xA1, CHR 0xC2, CHR 0xB3,
      CHR 0xC3, CHR 0xB0, CHR 0xC5, CHR 0xB8, CHR 0xE2, CHR 0x80, CHR 0xA1, CHR 0xC2, CHR 0xAC]"

definition show_summary :: "pylib \<Rightarrow> user_data \<Rightarrow> out list" where
  "show_summary lib d =
     [Line ''\<newline>--- Your Data Summary ---'',
      Line (''  Monthly Revenue:    '' @ garbled_naira @ format_2f lib (revenue d)),
      Line (''  Total Monthly Cost: '' @ garbled_naira @ format_2f lib (total_costs d)),
      Line (''  Net Profit/Loss:    '' @ garbled_naira @ format_2f lib (net_profit d)),
      Line (''  Bank Balance:       '' @ garbled_naira @ format_2f lib (bank_balance d))]"

definition show_report :: "BusinessAnalysisReport \<Rightarrow> out list" where
  "show_report report =
     [Line (''\<newline>'' @ equals 50),
      Line ''| AI BUSINESS ANALYSIS REPORT |'',
      Line (equals 50),
      Line ''\<newline>--- 1. PROFITABILITY ANALYSIS ---'',
      Line (profitability_analysis report),
      Line ''\<newline>--- 2. GROWTH & FUTURE PROJECTION ---'',
      Line (growth_and_future_projection report),
      Line ''\<newline>--- 3. BUSINESS EFFICIENCY ANALYSIS ---'',
      Line (business_efficiency_analysis report),
      Line ''\<newline>--- 4. ESTIMATED BUSINESS VALUATION ---'',
      Line (estimated_business_valuation report),
      Line ''\<newline>--- 5. TAX COMPLIANCE OVERVIEW ---'',
      Line (tax_compliance_overview report),
      Line ''\<newline>--- 6. LOAN ELIGIBILITY ASSESSMENT ---'',
      Line (loan_eligibility_assessment report),
      Line ''\<newline>--- 7. ACTIONABLE ADVICE ---'']
     @ map (\<lambda>item. Line (''  '' @ bullet @ '' '' @ item)) (actionable_advice report)
     @ [Line (equals 50)]"

definition analyst_goodbye :: out where
  "analyst_goodbye = Line ''\<newline>Exiting analyst tool. Goodbye!''"

definition industry_prompt :: string where
  "industry_prompt =
     ''What is your business industry (e.g., 'Retail', 'Restaurant', 'Logistics')?\<newline>> ''"

definition revenue_prompt :: string where
  "revenue_prompt = ''Enter your total Monthly Revenue (NGN):\<newline>> ''"

definition costs_prompt :: string where
  "costs_prompt = ''Enter your total Monthly Costs (Fixed + Variable) (NGN):\<newline>> ''"

definition balance_prompt :: string where
  "balance_prompt = ''Enter your Current Business Bank Account Balance (NGN):\<newline>> ''"

definition analyst_continue_prompt :: string where
  "analyst_continue_prompt =
     ''\<newline>Press Enter to run a new analysis, or type 'no' to exit:\<newline>> ''"

definition analyst_caught :: "exn \<Rightarrow> io \<Rightarrow> session" where
  \<comment> \<open>the clause \<open>except Exception\<close> of the loop; the body goes on after the \<open>try\<close>\<close>
  "analyst_caught e s =
     at_phase AwaitingContinuation
       (print (ExnLine ''\<newline>An unexpected runtime error occurred: '' e
                 ''. Restarting loop.'') s)"

definition analyst_report ::
  "pylib \<Rightarrow> BusinessAnalysisReport bedrock \<Rightarrow> string \<Rightarrow> pyfloat \<Rightarrow> pyfloat \<Rightarrow> pyfloat
     \<Rightarrow> io \<Rightarrow> session" where
  \<comment> \<open>the body of the \<open>try\<close> from the pre-calculation on\<close>
  "analyst_report lib svc the_industry the_revenue the_costs the_balance s =
     (let d = \<lparr>industry = the_industry, revenue = the_revenue, total_costs = the_costs, bank_balance = the_balance,
               net_profit = float_sub lib the_revenue the_costs\<rparr>;
          s1 = prints (show_summary lib d) s
      in if float_eq the_revenue (Fin 0)
         then at_phase AwaitingInput
                (print (Line (''\<newline>Cannot calculate profit margin or provide analysis ''
                              @ ''with zero revenue.'')) s1)
         else (case get_business_analysis lib svc d s1 of
                 (report, s2) \<Rightarrow> at_phase AwaitingContinuation (prints (show_report report) s2)))"

definition analyst_step ::
  "pylib \<Rightarrow> BusinessAnalysisReport bedrock \<Rightarrow> session \<Rightarrow> session" where
  "analyst_step lib svc st =
     (case phase st of
        AwaitingInput \<Rightarrow>
          (case input industry_prompt (print (Line (dashes 50)) (world st)) of
             (Inl e, s) \<Rightarrow> analyst_caught e s
           | (Inr l, s) \<Rightarrow>
               (let the_industry = strip l in
                if lower the_industry \<in> set [''quit'', ''exit'', ''q'']
                then at_phase Done (print analyst_goodbye s)
                else if the_industry = []
                then at_phase AwaitingInput
                       (print (Line (''Industry is required to provide a benchmark. ''
                                     @ ''Please try again.'')) s)
                else
                  (case get_numeric_input lib revenue_prompt s of
                     (Raise e, s1) \<Rightarrow> analyst_caught e s1
                   | (Exit m, s1) \<Rightarrow> at_phase Done s1
                   | (Value the_revenue, s1) \<Rightarrow>
                       (case get_numeric_input lib costs_prompt s1 of
                          (Raise e, s2) \<Rightarrow> analyst_caught e s2
                        | (Exit m, s2) \<Rightarrow> at_phase Done s2
                        | (Value the_costs, s2) \<Rightarrow>
                            (case get_numeric_input lib balance_prompt s2 of
                               (Raise e, s3) \<Rightarrow> analyst_caught e s3
                             | (Exit m, s3) \<Rightarrow> at_phase Done s3
                             | (Value the_balance, s3) \<Rightarrow>
                                 analyst_report lib svc the_industry the_revenue the_costs the_balance s3)))))
      | AwaitingContinuation \<Rightarrow>
          (case input analyst_continue_prompt (world st) of
             (Inl e, s) \<Rightarrow> crashed e s
           | (Inr l, s) \<Rightarrow>
               (if lower (strip l) \<in> set [''no'', ''n'', ''quit'', ''exit'']
                then at_phase Done (print analyst_goodbye s)
                else at_phase AwaitingInput s))
      | Done \<Rightarrow> st
      | Crashed e \<Rightarrow> st)"

lemma stdin_get_numeric_input:
  "length (stdin (snd (get_numeric_input lib prompt s))) \<le> length (stdin s)"
proof (induction lib prompt s rule: get_numeric_input.induct)
  case (1 lib prompt s)
  obtain r s' where in1: "input prompt s = (r, s')"
    by (cases "input prompt s")
  have le: "length (stdin s') \<le> length (stdin s)"
    using input_not_longer [OF in1] .
  show ?case
  proof (cases r)
    case (Inl e)
    then show ?thesis
      using in1 le by (simp add: get_numeric_input.simps [of lib prompt s])
  next
    case (Inr l)
    show ?thesis
      using "1.IH" [OF in1 [symmetric, unfolded Inr] refl refl] le in1 Inr
      by (auto simp: get_numeric_input.simps [of lib prompt s] Let_def split: option.splits)
  qed
qed

lemma stdin_get_business_analysis [simp]:
  "stdin (snd (get_business_analysis lib svc d s)) = stdin s"
  by (auto simp: get_business_analysis_def request_def
           split: option.splits sum.splits prod.splits)

lemma fuel_analyst_caught [simp]:
  "fuel (analyst_caught e s) = 3 * length (stdin s) + 1"
  by (simp add: analyst_caught_def)

lemma stdin_get_business_analysis_eq:
  "get_business_analysis lib svc d s = (report, s') \<Longrightarrow> stdin s' = stdin s"
  using stdin_get_business_analysis [of lib svc d s] by simp

lemma fuel_analyst_report:
  "fuel (analyst_report lib svc i r c b s) \<le> 3 * length (stdin s) + 2"
  by (auto simp: analyst_report_def Let_def split: prod.splits
           dest!: stdin_get_business_analysis_eq)

lemma get_numeric_input_not_longer:
  "get_numeric_input lib prompt s = (r, s') \<Longrightarrow> length (stdin s') \<le> length (stdin s)"
  using stdin_get_numeric_input [of lib prompt s] by simp

lemma fuel_analyst_numbers:
  "fuel (case get_numeric_input lib revenue_prompt s of
           (Raise e, s1) \<Rightarrow> analyst_caught e s1
         | (Exit m, s1) \<Rightarrow> at_phase Done s1
         | (Value the_revenue, s1) \<Rightarrow>
             (case get_numeric_input lib costs_prompt s1 of
                (Raise e, s2) \<Rightarrow> analyst_caught e s2
              | (Exit m, s2) \<Rightarrow> at_phase Done s2
              | (Value the_costs, s2) \<Rightarrow>
                  (case get_numeric_input lib balance_prompt s2 of
                     (Raise e, s3) \<Rightarrow> analyst_caught e s3
                   | (Exit m, s3) \<Rightarrow> at_phase Done s3
                   | (Value the_balance, s3) \<Rightarrow>
                       analyst_report lib svc i the_revenue the_costs the_balance s3)))
     \<le> 3 * length (stdin s) + 2"
proof -
  obtain r1 s1 where n1: "get_numeric_input lib revenue_prompt s = (r1, s1)"
    by (cases "get_numeric_input lib revenue_prompt s")
  obtain r2 s2 where n2: "get_numeric_input lib costs_prompt s1 = (r2, s2)"
    by (cases "get_numeric_input lib costs_prompt s1")
  obtain r3 s3 where n3: "get_numeric_input lib balance_prompt s2 = (r3, s3)"
    by (cases "get_numeric_input lib balance_prompt s2")
  have l1: "length (stdin s1) \<le> length (stdin s)"
    using get_numeric_input_not_longer [OF n1] .
  have l2: "length (stdin s2) \<le> length (stdin s)"
    using get_numeric_input_not_longer [OF n2] l1 by simp
  have l3: "length (stdin s3) \<le> length (stdin s)"
    using get_numeric_input_not_longer [OF n3] l2 by simp
  have rep: "fuel (analyst_report lib svc i a b c s3) \<le> 3 * length (stdin s) + 2" for a b c
    using fuel_analyst_report [of lib svc i a b c s3] l3 by simp
  show ?thesis
    using l1 l2 l3 rep by (cases r1; cases r2; cases r3) (simp_all add: n1 n2 n3)
qed

lemma fuel_analyst_step:
  assumes run: "\<not> finished st"
  shows "fuel (analyst_step lib svc st) < fuel st"
proof (cases "phase st")
  case AwaitingInput
  obtain r s where in1: "input industry_prompt (print (Line (dashes 50)) (world st)) = (r, s)"
    by (cases "input industry_prompt (print (Line (dashes 50)) (world st))")
  have le: "length (stdin s) \<le> length (stdin (world st))"
    using input_not_longer [OF in1] by simp
  show ?thesis
  proof (cases r)
    case (Inl e)
    then have "fuel (analyst_step lib svc st) = 3 * length (stdin s) + 1"
      using AwaitingInput in1 by (simp add: analyst_step_def)
    then show ?thesis
      using le AwaitingInput by (simp add: fuel_def finished_def)
  next
    case (Inr l)
    then have len: "Suc (length (stdin s)) = length (stdin (world st))"
      using input_shorter [of industry_prompt "print (Line (dashes 50)) (world st)" l s] in1
      by simp
    have "fuel (analyst_step lib svc st) \<le> 3 * length (stdin s) + 2"
      using AwaitingInput in1 Inr fuel_analyst_numbers [where lib = lib and svc = svc and s = s and i = "strip l"]
      by (simp add: analyst_step_def Let_def)
    then show ?thesis
      using len fuel_unfinished [OF run] by simp
  qed
next
  case AwaitingContinuation
  obtain r s where in1: "input analyst_continue_prompt (world st) = (r, s)"
    by (cases "input analyst_continue_prompt (world st)")
  show ?thesis
  proof (cases r)
    case (Inl e)
    then have "fuel (analyst_step lib svc st) = 0"
      using AwaitingContinuation in1 by (simp add: analyst_step_def)
    then show ?thesis
      using fuel_unfinished [OF run] by simp
  next
    case (Inr l)
    then have "Suc (length (stdin s)) = length (stdin (world st))"
      using input_shorter [of analyst_continue_prompt "world st" l s] in1 by simp
    moreover have "fuel (analyst_step lib svc st) \<le> 3 * length (stdin s) + 2"
      using AwaitingContinuation in1 Inr by (simp add: analyst_step_def)
    ultimately show ?thesis
      using fuel_unfinished [OF run] by simp
  qed
next
  case Done
  then show ?thesis using run by (simp add: finished_def)
next
  case (Crashed e)
  then show ?thesis using run by (simp add: finished_def)
qed

function analyst_loop ::
  "pylib \<Rightarrow> BusinessAnalysisReport bedrock \<Rightarrow> session \<Rightarrow> session" where
  \<comment> \<open>\<open>while True:\<close> of analyst.py\<close>
  "analyst_loop lib svc st =
     (if finished st then st else analyst_loop lib svc (analyst_step lib svc st))"
  by pat_completeness auto
termination
  by (relation "measure (\<lambda>(lib, svc, st). fuel st)") (auto simp: fuel_analyst_step)

definition analyst_main ::
  "pylib \<Rightarrow> BusinessAnalysisReport bedrock \<Rightarrow> string list \<Rightarrow> session" where
  \<comment> \<open>the \<open>__main__\<close> block of analyst.py\<close>
  "analyst_main lib svc lines =
     analyst_loop lib svc
       (at_phase AwaitingInput
          (prints [Line (''\<newline>--- '' @ garbled_flag @ '' AI Business Analyst (Nigeria) ---''),
                   Line (''This tool collects your monthly financial data to provide a ''
                         @ ''7-part analysis.''),
                   Line ''Type 'quit' or 'exit' at any prompt to end the session.\<newline>'']
             (start lines)))"

declare advise_loop.simps [simp del] advisor_loop.simps [simp del] tax_loop.simps [simp del]
  analyst_loop.simps [simp del]

section \<open>Sample data\<close>

definition sample_policy :: string where
  "sample_policy = ''You are a Nigerian tax and business advisor.''"

definition unreachable_service :: "'r bedrock" where
  \<comment> \<open>the client is built, every request fails\<close>
  "unreachable_service =
     \<lparr> SYSTEM_PROMPT = sample_policy, AWS_REGION = ''us-east-1'',
       from_bedrock = (\<lambda>t. None), messages_create = (\<lambda>t content. Inl Connectivity) \<rparr>"

definition table_of :: "string \<Rightarrow> string \<Rightarrow> (string \<times> real) list \<Rightarrow> dataframe" where
  \<comment> \<open>a table of two columns, labels and amounts\<close>
  "table_of label_header amount_header rows =
     \<lparr> columns = [label_header, amount_header],
       nrows = length rows,
       iloc = (\<lambda>col i.
                 case drop i rows of
                   [] \<Rightarrow> \<lparr>as_str = ''nan'', as_float = Inr NaN\<rparr>
                 | (label, amount) # _ \<Rightarrow>
                     if col = label_header
                     then \<lparr>as_str = label,
                           as_float = Inl (ValueError ''could not convert string to float'')\<rparr>
                     else \<lparr>as_str = ''0.0'', as_float = Inr (Fin amount)\<rparr>) \<rparr>"

definition sample_books :: dataframe where
  \<comment> \<open>the table that hi.py writes\<close>
  "sample_books =
     table_of ''Metric'' ''Amount_NGN''
       [(''Total Revenue'', 145000000), (''Cost of Sales'', 60000000),
        (''Operating Expenses'', 35000000), (''Other Income (Non-taxable)'', 2000000),
        (''Depreciation (Non-allowable)'', 5000000), (''Tax'', 4500000)]"

definition sample_lib :: "(string \<times> dataframe) list \<Rightarrow> pylib" where
  \<comment> \<open>a runtime whose file system holds the given CSV files\<close>
  "sample_lib files =
     \<lparr> read_csv = (\<lambda>t path. case map_of files path of
                                 None \<Rightarrow> Inl FileNotFoundError | Some df \<Rightarrow> Inr df),
       read_excel = (\<lambda>t path. Inl FileNotFoundError),
       to_string = (\<lambda>df. concat (columns df)),
       format_2f = (\<lambda>x. ''0.00''),
       format_1f = (\<lambda>x. ''0.0''),
       parse_float = (\<lambda>s. if s = ''0'' then Some (Fin 0)
                            else if s = ''500000'' then Some (Fin 500000) else None),
       float_sub = (\<lambda>a b. case (a, b) of (Fin x, Fin y) \<Rightarrow> Fin (x - y) | _ \<Rightarrow> NaN) \<rparr>"

definition sample_data :: user_data where
  "sample_data =
     \<lparr> industry = ''Retail'', revenue = Fin 500000, total_costs = Fin 300000,
       bank_balance = Fin 100000, net_profit = Fin 200000 \<rparr>"

definition sent :: "io \<Rightarrow> io \<Rightarrow> string list" where
  \<comment> \<open>the texts sent to the completion service between two states of a session\<close>
  "sent s s' = drop (length (calls s)) (calls s')"

section \<open>Failure of the completion call\<close>

lemma load_financial_data_cases:
  "(\<exists>df r p ov iv. load_financial_data lib filepath s = ((Some df, Some r, p, ov, iv), tick s))
   \<or> (\<exists>e. load_financial_data lib filepath s
            = (load_failure, print (load_error_line filepath e) (tick s)))"
  by (auto simp: load_financial_data_def split: sum.splits)

lemma never_returns:
  assumes "\<forall>t content. \<exists>e. messages_create svc t content = Inl e"
  shows "messages_create svc t content \<noteq> Inr r"
  using assms by (metis sum.distinct(1))

lemma get_nigerian_advice_failure:
  assumes "\<forall>t content. \<exists>e. messages_create svc t content = Inl e"
  shows "fst (get_nigerian_advice svc user_query s) = detailed_fallback"
  using never_returns [OF assms]
  by (simp add: get_nigerian_advice_def request_def split: option.splits sum.splits)

lemma get_business_analysis_failure:
  assumes "\<forall>t content. \<exists>e. messages_create svc t content = Inl e"
  shows "fst (get_business_analysis lib svc d s) = analysis_fallback"
  using never_returns [OF assms]
  by (simp add: get_business_analysis_def request_def split: option.splits sum.splits)

lemma calculate_tax_and_assess_failure:
  assumes "\<forall>t content. \<exists>e. messages_create svc t content = Inl e"
  shows "\<exists>recommendation paid.
           fst (calculate_tax_and_assess lib svc business_size filepath s)
             = Inr (get_fallback_response recommendation paid)
           \<and> recommendation \<noteq> []"
proof -
  consider (loaded) df r p ov iv where
      "load_financial_data lib filepath s = ((Some df, Some r, p, ov, iv), tick s)"
    | (failed) e where
      "load_financial_data lib filepath s
         = (load_failure, print (load_error_line filepath e) (tick s))"
    using load_financial_data_cases [of lib filepath s] by blast
  then show ?thesis
  proof cases
    case loaded
    then show ?thesis
      using never_returns [OF assms]
      by (auto simp: calculate_tax_and_assess_def request_def split: option.splits sum.splits)
  next
    case failed
    then show ?thesis
      by (auto simp: calculate_tax_and_assess_def load_failure_def)
  qed
qed

text \<open>
  Claim C1. When the completion call raises, whatever the request, none of the three
  completion functions lets the exception out: \<open>get_nigerian_advice\<close> returns a report whose
  \<open>advice_type\<close> is \<open>IRRELEVANT\<close> and whose summary is a non-empty text,
  \<open>get_business_analysis\<close> returns a report whose first field is a non-empty text, and
  \<open>calculate_tax_and_assess\<close> returns a result whose \<open>compliance_status\<close> is
  \<open>UNKNOWN (Check Data)\<close> and whose recommendation is a non-empty text.
\<close>

theorem completion_failure_returns_fallback:
  assumes "\<forall>t content. \<exists>e. messages_create advise_svc t content = Inl e"
    and "\<forall>t content. \<exists>e. messages_create analyst_svc t content = Inl e"
    and "\<forall>t content. \<exists>e. messages_create tax_svc t content = Inl e"
  shows "advice_type (fst (get_nigerian_advice advise_svc user_query s)) = IRRELEVANT
         \<and> key_points_summary (fst (get_nigerian_advice advise_svc user_query s)) \<noteq> []
         \<and> profitability_analysis (fst (get_business_analysis lib analyst_svc d s)) \<noteq> []
         \<and> (\<exists>result.
               fst (calculate_tax_and_assess lib tax_svc business_size filepath s) = Inr result
               \<and> compliance_status result = UNKNOWN_Check_Data
               \<and> compliance_recommendation result \<noteq> [])"
proof -
  obtain recommendation paid where
    "fst (calculate_tax_and_assess lib tax_svc business_size filepath s)
       = Inr (get_fallback_response recommendation paid)" and "recommendation \<noteq> []"
    using calculate_tax_and_assess_failure [OF assms(3)] by blast
  then show ?thesis
    using get_nigerian_advice_failure [OF assms(1)] get_business_analysis_failure [OF assms(2)]
    by (simp add: detailed_fallback_def analysis_fallback_def get_fallback_response_def)
qed

theorem completion_failure_returns_fallback_witness:
  "advice_type (fst (get_nigerian_advice unreachable_service ''How do I register for VAT?''
                       (start []))) = IRRELEVANT
   \<and> profitability_analysis
        (fst (get_business_analysis (sample_lib []) unreachable_service sample_data (start [])))
      \<noteq> []
   \<and> (\<exists>result.
         fst (calculate_tax_and_assess (sample_lib [(''books.csv'', sample_books)])
                unreachable_service ''LARGE'' ''books.csv'' (start [])) = Inr result
         \<and> compliance_status result = UNKNOWN_Check_Data)"
proof -
  have a: "\<forall>t content. \<exists>e.
             messages_create (unreachable_service :: DetailedBusinessAdvice bedrock) t content
               = Inl e"
    by (simp add: unreachable_service_def)
  have b: "\<forall>t content. \<exists>e.
             messages_create (unreachable_service :: BusinessAnalysisReport bedrock) t content
               = Inl e"
    by (simp add: unreachable_service_def)
  have c: "\<forall>t content. \<exists>e.
             messages_create (unreachable_service :: TaxCalculationResult bedrock) t content
               = Inl e"
    by (simp add: unreachable_service_def)
  show ?thesis
    using completion_failure_returns_fallback [OF a b c] by blast
qed

definition answering_service :: "'r \<Rightarrow> 'r bedrock" where
  \<comment> \<open>every request is answered with the given report\<close>
  "answering_service r =
     \<lparr> SYSTEM_PROMPT = sample_policy, AWS_REGION = ''us-east-1'',
       from_bedrock = (\<lambda>t. None), messages_create = (\<lambda>t content. Inr r) \<rparr>"

definition paid_books :: dataframe where
  "paid_books =
     table_of ''Description'' ''NGN''
       [(''Sales'', 90000000), (''Profit Tax Paid'', 4500000), (''Output VAT'', 6750000)]"

section \<open>The fallback objects\<close>

text \<open>
  Counterexample to claim C2 as stated. With an unreachable service the report of
  \<open>get_business_analysis\<close> has a list field of one element, and the result of
  \<open>calculate_tax_and_assess\<close> has the numeric field \<open>profit_tax_paid_by_user\<close> equal to the
  amount found in the file.
\<close>

theorem fallback_fields_counterexample:
  "actionable_advice
     (fst (get_business_analysis (sample_lib []) unreachable_service sample_data (start [])))
     \<noteq> []
   \<and> map_sum id profit_tax_paid_by_user
         (fst (calculate_tax_and_assess (sample_lib [(''books.csv'', paid_books)])
                 unreachable_service ''MEDIUM'' ''books.csv'' (start [])))
       \<noteq> Inr (Fin 0)"
  by code_simp

text \<open>
  Claim C2, amended. For every reason and every amount paid, \<open>get_fallback_response\<close> gives
  the reason as recommendation, a fixed text starting with N/A as business advice, the
  status \<open>UNKNOWN (Check Data)\<close>, the amount paid passed to it in
  \<open>profit_tax_paid_by_user\<close> and \<open>0.0\<close> in every other numeric field. When the completion
  call raises, \<open>get_nigerian_advice\<close> of advise.py returns the score \<open>0.0\<close>, the type
  \<open>IRRELEVANT\<close>, fixed texts (N/A for the risks) and an empty list of steps, and
  \<open>get_business_analysis\<close> returns fixed texts (N/A, or a text that tells the error) and
  the one-element list \<open>["API connection failed."]\<close>.
\<close>

theorem fallback_fields:
  assumes "\<forall>t content. \<exists>e. messages_create advise_svc t content = Inl e"
    and "\<forall>t content. \<exists>e. messages_create analyst_svc t content = Inl e"
  shows "get_fallback_response reason paid =
           \<lparr> taxable_profit = Fin 0, cit_rate_applied = Fin 0, cit_liability = Fin 0,
             education_tax_liability = Fin 0, total_profit_tax_due = Fin 0,
             profit_tax_paid_by_user = paid, profit_tax_payment_status_amount = Fin 0,
             vat_output_collected = Fin 0, vat_input_paid = Fin 0, vat_remittable_due = Fin 0,
             compliance_status = UNKNOWN_Check_Data, compliance_recommendation = reason,
             business_growth_advice = ''N/A. Cannot provide business advice due to error.'' \<rparr>
         \<and> fst (get_nigerian_advice advise_svc user_query s) =
           \<lparr> relevance_score = Fin 0, advice_type = IRRELEVANT,
             advice_title = ''System Error: API Failure'',
             key_points_summary =
               ''The advisory service is currently unavailable due to a connection or API error.'',
             detailed_explanation = ''Please check your AWS configuration or model access.'',
             actionable_steps = [], potential_risks_or_considerations = ''N/A'' \<rparr>
         \<and> fst (get_business_analysis lib analyst_svc d s) =
           \<lparr> profitability_analysis =
               ''Error: Could not generate analysis. API connection failed.'',
             growth_and_future_projection = ''N/A'', business_efficiency_analysis = ''N/A'',
             estimated_business_valuation = ''N/A'',
             tax_compliance_overview =
               ''N/A. Check AWS credentials and model access for Llama 3 70B.'',
             loan_eligibility_assessment = ''N/A'',
             actionable_advice = [''API connection failed.''] \<rparr>"
  using get_nigerian_advice_failure [OF assms(1)] get_business_analysis_failure [OF assms(2)]
  by (simp add: get_fallback_response_def detailed_fallback_def analysis_fallback_def)

theorem fallback_fields_witness:
  "actionable_steps
     (fst (get_nigerian_advice unreachable_service ''How do I register for VAT?'' (start [])))
     = []
   \<and> actionable_advice
         (fst (get_business_analysis (sample_lib []) unreachable_service sample_data (start [])))
       = [''API connection failed.'']
   \<and> vat_remittable_due (get_fallback_response ''Data loading failed.'' (Fin 0)) = Fin 0"
proof -
  have a: "\<forall>t content. \<exists>e.
             messages_create (unreachable_service :: DetailedBusinessAdvice bedrock) t content
               = Inl e"
    by (simp add: unreachable_service_def)
  have b: "\<forall>t content. \<exists>e.
             messages_create (unreachable_service :: BusinessAnalysisReport bedrock) t content
               = Inl e"
    by (simp add: unreachable_service_def)
  show ?thesis
    using fallback_fields [OF a b, of "''Data loading failed.''" "Fin 0"
        "''How do I register for VAT?''" "start []" "sample_lib []" sample_data]
    by simp
qed

text \<open>
  The branch of \<open>calculate_tax_and_assess\<close> for a failed request passes the amount of
  profit tax paid that was read from the file, whatever the file and the failure.
\<close>

lemma api_failure_passes_amount_paid:
  assumes "load_financial_data lib filepath s = ((Some df, Some r, p, ov, iv), s1)"
    and "from_bedrock svc (clock s1) = None"
    and "\<forall>t content. \<exists>e. messages_create svc t content = Inl e"
  shows "fst (calculate_tax_and_assess lib svc business_size filepath s) =
           Inr (get_fallback_response
                  (''API request failed. Check model permissions and AWS ''
                   @ ''access for Llama 3 70B.'') p)"
proof -
  have "messages_create svc t content \<noteq> Inr x" for t content x
    using assms(3) by (metis Inl_Inr_False)
  then show ?thesis
    using assms(1,2)
    by (simp add: calculate_tax_and_assess_def request_def split: sum.splits)
qed

section \<open>Composition of the request\<close>

lemma calls_print [simp]: "calls (print l s) = calls s"
  by (simp add: print_def)

lemma calls_prints [simp]: "calls (prints ls s) = calls s"
  by (simp add: prints_def)

lemma calls_tick [simp]: "calls (tick s) = calls s"
  by (simp add: tick_def)

lemma calls_request [simp]: "calls (snd (request svc content s)) = calls s @ [content]"
  by (simp add: request_def)

lemma calls_load_financial_data [simp]:
  "calls (snd (load_financial_data lib filepath s)) = calls s"
  by (simp add: load_financial_data_def split: sum.splits prod.splits)

lemma sent_same [simp]: "sent s s = []"
  by (simp add: sent_def)

lemma sent_get_nigerian_advice:
  "sent s (snd (get_nigerian_advice svc user_query s)) =
     (if from_bedrock svc (clock s) = None then [full_query (SYSTEM_PROMPT svc) user_query]
      else [])"
  by (simp add: sent_def get_nigerian_advice_def request_def split: option.splits sum.splits)

lemma sent_get_business_analysis:
  "sent s (snd (get_business_analysis lib svc d s)) =
     (if from_bedrock svc (clock s) = None
      then [analysis_query (SYSTEM_PROMPT svc) (data_string lib d)] else [])"
  by (simp add: sent_def get_business_analysis_def request_def
           split: option.splits sum.splits)

lemma sent_calculate_tax_and_assess:
  "sent s (snd (calculate_tax_and_assess lib svc business_size filepath s)) =
     (case fst (load_financial_data lib filepath s) of
        (Some df, Some total_revenue, profit_tax_paid, output_vat, input_vat) \<Rightarrow>
          if from_bedrock svc (Suc (clock s)) = None
          then [tax_content (SYSTEM_PROMPT svc)
                  (tax_user_query lib business_size (to_string lib df) total_revenue
                     profit_tax_paid output_vat input_vat)]
          else []
      | _ \<Rightarrow> [])"
proof -
  consider (loaded) df r p ov iv where
      "load_financial_data lib filepath s = ((Some df, Some r, p, ov, iv), tick s)"
    | (failed) e where
      "load_financial_data lib filepath s
         = (load_failure, print (load_error_line filepath e) (tick s))"
    using load_financial_data_cases [of lib filepath s] by blast
  then show ?thesis
  proof cases
    case loaded
    then show ?thesis
      by (simp add: sent_def calculate_tax_and_assess_def request_def tick_def
               split: option.splits sum.splits)
  next
    case failed
    then show ?thesis
      by (simp add: sent_def calculate_tax_and_assess_def load_failure_def)
  qed
qed

text \<open>
  Claim C9. Two runs of a completion function on the same payload, with the same policy
  text, send the same text to the completion client whenever both reach it, however the
  rest of the two sessions differs (what the service answers, what was printed or sent
  before, the time). For the tax calculator the payload is the business size and what
  \<open>load_financial_data\<close> returned.
\<close>

theorem composition_deterministic:
  assumes "SYSTEM_PROMPT advise_svc = SYSTEM_PROMPT advise_svc'"
    and "SYSTEM_PROMPT analyst_svc = SYSTEM_PROMPT analyst_svc'"
    and "SYSTEM_PROMPT tax_svc = SYSTEM_PROMPT tax_svc'"
    and "fst (load_financial_data lib filepath s) = fst (load_financial_data lib filepath' s')"
  shows "(sent s (snd (get_nigerian_advice advise_svc user_query s)) \<noteq> []
          \<and> sent s' (snd (get_nigerian_advice advise_svc' user_query s')) \<noteq> []
          \<longrightarrow> sent s (snd (get_nigerian_advice advise_svc user_query s))
              = sent s' (snd (get_nigerian_advice advise_svc' user_query s')))
       \<and> (sent s (snd (get_business_analysis lib analyst_svc d s)) \<noteq> []
          \<and> sent s' (snd (get_business_analysis lib analyst_svc' d s')) \<noteq> []
          \<longrightarrow> sent s (snd (get_business_analysis lib analyst_svc d s))
              = sent s' (snd (get_business_analysis lib analyst_svc' d s')))
       \<and> (sent s (snd (calculate_tax_and_assess lib tax_svc business_size filepath s)) \<noteq> []
          \<and> sent s' (snd (calculate_tax_and_assess lib tax_svc' business_size filepath' s'))
              \<noteq> []
          \<longrightarrow> sent s (snd (calculate_tax_and_assess lib tax_svc business_size filepath s))
              = sent s' (snd (calculate_tax_and_assess lib tax_svc' business_size filepath' s')))"
  using assms
  by (auto simp: sent_get_nigerian_advice sent_get_business_analysis
        sent_calculate_tax_and_assess split: if_splits option.splits prod.splits)

definition later :: io where
  \<comment> \<open>a session in which something was typed, printed and sent before\<close>
  "later = \<lparr>stdin = [''quit''], stdout = [Line ''earlier''], calls = [''earlier''], clock = 7\<rparr>"

theorem composition_deterministic_witness:
  "sent (start []) (snd (get_nigerian_advice unreachable_service ''How do I register for VAT?''
                           (start [])))
     = sent later (snd (get_nigerian_advice (answering_service detailed_fallback)
                          ''How do I register for VAT?'' later))
   \<and> sent (start []) (snd (get_business_analysis (sample_lib [(''books.csv'', paid_books)]) unreachable_service
                              sample_data (start [])))
     = sent later (snd (get_business_analysis (sample_lib [(''books.csv'', paid_books)]) (answering_service analysis_fallback)
                          sample_data later))
   \<and> sent (start []) (snd (calculate_tax_and_assess (sample_lib [(''books.csv'', paid_books)])
                              unreachable_service ''MEDIUM'' ''books.csv'' (start [])))
     = sent later (snd (calculate_tax_and_assess (sample_lib [(''books.csv'', paid_books)])
                          (answering_service (get_fallback_response [] (Fin 0)))
                          ''MEDIUM'' ''books.csv'' later))
   \<and> sent (start []) (snd (calculate_tax_and_assess (sample_lib [(''books.csv'', paid_books)])
                              unreachable_service ''MEDIUM'' ''books.csv'' (start []))) \<noteq> []"
proof -
  let ?lib = "sample_lib [(''books.csv'', paid_books)]"
  let ?q = "''How do I register for VAT?''"
  have p1: "SYSTEM_PROMPT (unreachable_service :: DetailedBusinessAdvice bedrock)
              = SYSTEM_PROMPT (answering_service detailed_fallback)"
    by (simp add: unreachable_service_def answering_service_def)
  have p2: "SYSTEM_PROMPT (unreachable_service :: BusinessAnalysisReport bedrock)
              = SYSTEM_PROMPT (answering_service analysis_fallback)"
    by (simp add: unreachable_service_def answering_service_def)
  have p3: "SYSTEM_PROMPT (unreachable_service :: TaxCalculationResult bedrock)
              = SYSTEM_PROMPT (answering_service (get_fallback_response [] (Fin 0)))"
    by (simp add: unreachable_service_def answering_service_def)
  have p4: "fst (load_financial_data ?lib ''books.csv'' (start []))
              = fst (load_financial_data ?lib ''books.csv'' later)"
    by (simp add: load_financial_data_def read_table_def sample_lib_def split: sum.splits)
  have n1: "sent (start []) (snd (get_nigerian_advice unreachable_service ?q (start []))) \<noteq> []"
    by (simp add: sent_get_nigerian_advice unreachable_service_def)
  have n1': "sent later (snd (get_nigerian_advice (answering_service detailed_fallback) ?q later))
               \<noteq> []"
    by (simp add: sent_get_nigerian_advice answering_service_def)
  have n2: "sent (start []) (snd (get_business_analysis (sample_lib [(''books.csv'', paid_books)]) unreachable_service
                                    sample_data (start []))) \<noteq> []"
    by (simp add: sent_get_business_analysis unreachable_service_def)
  have n2': "sent later (snd (get_business_analysis (sample_lib [(''books.csv'', paid_books)])
                                (answering_service analysis_fallback) sample_data later)) \<noteq> []"
    by (simp add: sent_get_business_analysis answering_service_def)
  have n3: "sent (start []) (snd (calculate_tax_and_assess ?lib unreachable_service ''MEDIUM''
                                    ''books.csv'' (start []))) \<noteq> []"
    by code_simp
  have n3': "sent later (snd (calculate_tax_and_assess ?lib
                                (answering_service (get_fallback_response [] (Fin 0)))
                                ''MEDIUM'' ''books.csv'' later)) \<noteq> []"
    by code_simp
  show ?thesis
    using composition_deterministic [OF p1 p2 p3 p4, of ?q sample_data "''MEDIUM''"]
      n1 n1' n2 n2' n3 n3'
    by simp
qed

section \<open>Extraction from a table\<close>

subsection \<open>The first element that a search keeps\<close>

lemma find_first:
  "find P xs = Some x \<longleftrightarrow>
     (\<exists>i<length xs. xs ! i = x \<and> P x \<and> (\<forall>j<i. \<not> P (xs ! j)))"
  by (auto simp: find_Some_iff)

lemma filter_upt_first:
  assumes "i < n" "P i" "\<forall>j<i. \<not> P j"
  shows "\<exists>rest. filter P [0..<n] = i # rest"
proof -
  have "[0..<n] = [0..<i] @ i # [Suc i..<n]"
    using assms(1) by (metis le0 less_imp_le_nat upt_add_eq_append upt_conv_Cons le_add_diff_inverse)
  moreover have "filter P [0..<i] = []"
    using assms(3) by (simp add: filter_empty_conv)
  ultimately show ?thesis
    using assms(2) by simp
qed

lemma filter_upt_empty:
  "filter P [0..<n] = [] \<longleftrightarrow> (\<forall>j<n. \<not> P j)"
  by (auto simp: filter_empty_conv)

lemma matching_rows_first:
  assumes "i < nrows df" "label_contains keyword (iloc df metric_col i)"
    and "\<forall>j<i. \<not> label_contains keyword (iloc df metric_col j)"
  shows "\<exists>rest. matching_rows df metric_col keyword = i # rest"
  unfolding matching_rows_def
  using filter_upt_first [of i "nrows df" "\<lambda>i. label_contains keyword (iloc df metric_col i)"]
    assms by simp

lemma matching_rows_empty:
  "matching_rows df metric_col keyword = [] \<longleftrightarrow>
     (\<forall>j<nrows df. \<not> label_contains keyword (iloc df metric_col j))"
  by (simp add: matching_rows_def filter_upt_empty)

subsection \<open>find_value\<close>

lemma find_value_no_match:
  assumes "\<forall>k\<in>set keywords. \<forall>j<nrows df. \<not> label_contains k (iloc df metric_col j)"
  shows "find_value df metric_col amount_col keywords = Inr (Fin 0)"
  using assms by (induction "keywords") (simp_all add: matching_rows_empty [THEN iffD2])

lemma find_value_match:
  assumes "n < length keywords"
    and "\<forall>m<n. \<forall>j<nrows df. \<not> label_contains (keywords ! m) (iloc df metric_col j)"
    and "i < nrows df" "label_contains (keywords ! n) (iloc df metric_col i)"
    and "\<forall>j<i. \<not> label_contains (keywords ! n) (iloc df metric_col j)"
  shows "find_value df metric_col amount_col keywords = as_float (iloc df amount_col i)"
  using assms
proof (induction "keywords" arbitrary: n)
  case Nil
  then show ?case by simp
next
  case (Cons k kws)
  show ?case
  proof (cases n)
    case 0
    then obtain rest where "matching_rows df metric_col k = i # rest"
      using matching_rows_first [of i df k metric_col] Cons.prems by auto
    then show ?thesis by simp
  next
    case (Suc n')
    have "\<forall>j<nrows df. \<not> label_contains k (iloc df metric_col j)"
      using Cons.prems(2) Suc by (metis nth_Cons_0 zero_less_Suc)
    then have none: "matching_rows df metric_col k = []"
      by (simp add: matching_rows_empty)
    have "find_value df metric_col amount_col kws = as_float (iloc df amount_col i)"
    proof (rule Cons.IH [of n'])
      show "n' < length kws" using Cons.prems(1) Suc by simp
      show "\<forall>m<n'. \<forall>j<nrows df. \<not> label_contains (kws ! m) (iloc df metric_col j)"
        using Cons.prems(2) Suc by (metis Suc_less_eq nth_Cons_Suc)
      show "i < nrows df" by (rule Cons.prems(3))
      show "label_contains (kws ! n') (iloc df metric_col i)"
        using Cons.prems(4) Suc by simp
      show "\<forall>j<i. \<not> label_contains (kws ! n') (iloc df metric_col j)"
        using Cons.prems(5) Suc by simp
    qed
    then show ?thesis
      using none by simp
  qed
qed

text \<open>
  Claim C5. For each of the four quantities that \<open>load_financial_data\<close> extracts (revenue,
  profit tax paid, output VAT, input VAT), \<open>find_value\<close> goes through the keywords of the
  quantity in their order: at the first keyword that matches some label, case ignored, it
  returns \<open>float\<close> of the amount cell of the first row whose label matches that keyword,
  whatever rows the later keywords match; when no label matches any keyword of the
  quantity it returns \<open>0.0\<close>.
\<close>

theorem find_value_resolution:
  assumes "keywords \<in> set [revenue_keywords, profit_tax_keywords, output_vat_keywords,
                            input_vat_keywords]"
  shows "(n < length keywords
            \<and> (\<forall>m<n. \<forall>j<nrows df. \<not> label_contains (keywords ! m) (iloc df metric_col j))
            \<and> i < nrows df \<and> label_contains (keywords ! n) (iloc df metric_col i)
            \<and> (\<forall>j<i. \<not> label_contains (keywords ! n) (iloc df metric_col j))
          \<longrightarrow> find_value df metric_col amount_col keywords = as_float (iloc df amount_col i))
         \<and> ((\<forall>k\<in>set keywords. \<forall>j<nrows df. \<not> label_contains k (iloc df metric_col j))
          \<longrightarrow> find_value df metric_col amount_col keywords = Inr (Fin 0))"
  using find_value_match [of n "keywords" df metric_col i amount_col]
    find_value_no_match [of "keywords" df metric_col amount_col]
  by blast

definition mixed_books :: dataframe where
  \<comment> \<open>the row of the later keyword comes first\<close>
  "mixed_books =
     table_of ''Item'' ''Value'' [(''Sales'', 90000000), (''Total Revenue'', 145000000)]"

definition long_s_books :: dataframe where
  \<comment> \<open>the first label is written with U+017F, which \<open>s\<close> matches when case is ignored\<close>
  "long_s_books =
     table_of ''Item'' ''Value'' [(CHR 0xC5 # CHR 0xBF # ''ales'', 50), (''Sales'', 60)]"

theorem find_value_resolution_witness:
  "find_value mixed_books ''Item'' ''Value'' revenue_keywords = Inr (Fin 145000000)
   \<and> find_value mixed_books ''Item'' ''Value'' input_vat_keywords = Inr (Fin 0)
   \<and> find_value long_s_books ''Item'' ''Value'' revenue_keywords = Inr (Fin 50)"
proof -
  have r: "revenue_keywords \<in> set [revenue_keywords, profit_tax_keywords, output_vat_keywords,
                                     input_vat_keywords]"
    by simp
  have v: "input_vat_keywords \<in> set [revenue_keywords, profit_tax_keywords,
                                       output_vat_keywords, input_vat_keywords]"
    by simp
  have n: "0 < length revenue_keywords"
    by (simp add: revenue_keywords_def)
  have before: "\<forall>m<0::nat. \<forall>j<nrows mixed_books.
                  \<not> label_contains (revenue_keywords ! m) (iloc mixed_books ''Item'' j)"
    by simp
  have i: "1 < nrows mixed_books"
    by (simp add: mixed_books_def table_of_def)
  have here: "label_contains (revenue_keywords ! 0) (iloc mixed_books ''Item'' 1)"
    by code_simp
  have "\<not> label_contains (revenue_keywords ! 0) (iloc mixed_books ''Item'' 0)"
    by code_simp
  then have first: "\<forall>j<1::nat. \<not> label_contains (revenue_keywords ! 0)
                                      (iloc mixed_books ''Item'' j)"
    by simp
  have "\<forall>k\<in>set input_vat_keywords. \<forall>j\<in>set [0..<nrows mixed_books].
          \<not> label_contains k (iloc mixed_books ''Item'' j)"
    by code_simp
  then have none: "\<forall>k\<in>set input_vat_keywords. \<forall>j<nrows mixed_books.
                     \<not> label_contains k (iloc mixed_books ''Item'' j)"
    by simp
  have amount: "as_float (iloc mixed_books ''Value'' 1) = Inr (Fin 145000000)"
    by (simp add: mixed_books_def table_of_def)
  have a: "find_value mixed_books ''Item'' ''Value'' revenue_keywords
             = as_float (iloc mixed_books ''Value'' 1)"
    using find_value_resolution [OF r, of 0 mixed_books "''Item''" 1 "''Value''"]
      n before i here first by blast
  have b: "find_value mixed_books ''Item'' ''Value'' input_vat_keywords = Inr (Fin 0)"
    using find_value_resolution [OF v, of 0 mixed_books "''Item''" 0 "''Value''"]
      none by blast
  have n': "2 < length revenue_keywords"
    by (simp add: revenue_keywords_def)
  have "\<forall>m\<in>set [0..<2]. \<forall>j\<in>set [0..<nrows long_s_books].
          \<not> label_contains (revenue_keywords ! m) (iloc long_s_books ''Item'' j)"
    by code_simp
  then have before': "\<forall>m<2::nat. \<forall>j<nrows long_s_books.
                        \<not> label_contains (revenue_keywords ! m) (iloc long_s_books ''Item'' j)"
    by simp
  have i': "0 < nrows long_s_books"
    by (simp add: long_s_books_def table_of_def)
  have here': "label_contains (revenue_keywords ! 2) (iloc long_s_books ''Item'' 0)"
    by code_simp
  have first': "\<forall>j<0::nat. \<not> label_contains (revenue_keywords ! 2)
                                       (iloc long_s_books ''Item'' j)"
    by simp
  have amount': "as_float (iloc long_s_books ''Value'' 0) = Inr (Fin 50)"
    by (simp add: long_s_books_def table_of_def)
  have c: "find_value long_s_books ''Item'' ''Value'' revenue_keywords
             = as_float (iloc long_s_books ''Value'' 0)"
    using find_value_resolution [OF r, of 2 long_s_books "''Item''" 0 "''Value''"]
      n' before' i' here' first' by blast
  show ?thesis
    using a b c amount amount' by simp
qed

subsection \<open>Column resolution\<close>

lemma header_matches_not_empty:
  "header_matches metric_col_names col \<or> header_matches amount_col_names col \<Longrightarrow> col \<noteq> []"
  by (auto simp: header_matches_def metric_col_names_def amount_col_names_def lower_def)

lemma find_column_pending:
  assumes "names = metric_col_names \<or> names = amount_col_names"
  shows "pending (find_column names df) = find_column names df"
proof (cases "find_column names df")
  case None
  then show ?thesis by (simp add: pending_def)
next
  case (Some col)
  then have "header_matches names col"
    by (auto simp: find_column_def find_Some_iff)
  then have "col \<noteq> []"
    using assms header_matches_not_empty by blast
  then show ?thesis
    using Some by (simp add: pending_def)
qed

text \<open>
  Column resolution in nigerian_taxcalc.py: the column chosen for a set of names is the
  first in declared order whose lower-cased label contains one of the names, and when
  either set has no such column \<open>load_financial_data\<close> takes the \<open>KeyError\<close> branch and
  returns the failure tuple.
\<close>

lemma column_resolution:
  "(find_column names df = Some col \<longleftrightarrow>
      (\<exists>i<length (columns df). columns df ! i = col \<and> header_matches names col
         \<and> (\<forall>j<i. \<not> header_matches names (columns df ! j))))
   \<and> (find_column names df = None \<longleftrightarrow> (\<forall>c\<in>set (columns df). \<not> header_matches names c))"
  by (auto simp: find_column_def find_first find_None_iff)

lemma missing_columns_fail:
  assumes "read_table lib (clock s) filepath = Inr df"
    and "find_column metric_col_names df = None \<or> find_column amount_col_names df = None"
  shows "load_financial_data lib filepath s =
           (load_failure,
            print (ExnLine ''ERROR: Column identification error. '' columns_not_found [])
              (tick s))"
proof -
  have "extract_values df = Inl columns_not_found"
    using assms(2)
    by (auto simp: extract_values_def find_column_pending split: option.splits)
  then show ?thesis
    using assms(1) by (simp add: load_financial_data_def columns_not_found_def)
qed

subsection \<open>Revenue is mandatory\<close>

definition data_loading_failed :: TaxCalculationResult where
  \<comment> \<open>what \<open>calculate_tax_and_assess\<close> returns when \<open>financial_data is None\<close>\<close>
  "data_loading_failed =
     get_fallback_response
       ''Data loading failed. Check file path, existence, and column names.'' (Fin 0)"

lemma zero_revenue_load:
  assumes "read_table lib (clock s) filepath = Inr df"
    and "find_column metric_col_names df = Some metric_col"
    and "find_column amount_col_names df = Some amount_col"
    and "find_value df metric_col amount_col revenue_keywords = Inr x"
    and "float_eq x (Fin 0)"
  shows "load_financial_data lib filepath s =
           (load_failure,
            print (ExnLine ''ERROR: Data or format error: '' revenue_missing []) (tick s))"
proof -
  have "pending (find_column metric_col_names df) = Some metric_col"
    using find_column_pending [of metric_col_names df] assms(2) by simp
  moreover have "pending (find_column amount_col_names df) = Some amount_col"
    using find_column_pending [of amount_col_names df] assms(3) by simp
  ultimately have "extract_values df = Inl revenue_missing"
    using assms(4,5) by (simp add: extract_values_def)
  then show ?thesis
    using assms(1) by (simp add: load_financial_data_def revenue_missing_def)
qed

lemma zero_revenue_calculate:
  assumes "read_table lib (clock s) filepath = Inr df"
    and "find_column metric_col_names df = Some metric_col"
    and "find_column amount_col_names df = Some amount_col"
    and "find_value df metric_col amount_col revenue_keywords = Inr x"
    and "float_eq x (Fin 0)"
  shows "calculate_tax_and_assess lib svc business_size filepath s =
           (Inr data_loading_failed,
            print (ExnLine ''ERROR: Data or format error: '' revenue_missing []) (tick s))"
  using zero_revenue_load [OF assms]
  by (simp add: calculate_tax_and_assess_def load_failure_def data_loading_failed_def)

lemma loaded_revenue_not_zero:
  "load_financial_data lib filepath s = ((Some df, Some r, p, ov, iv), s') \<Longrightarrow>
     \<not> float_eq r (Fin 0)"
  by (auto simp: load_financial_data_def extract_values_def load_failure_def
           split: sum.splits option.splits if_splits prod.splits)

lemma failed_load_calculate:
  assumes "load_financial_data lib filepath s = (load_failure, s1)"
  shows "calculate_tax_and_assess lib svc business_size filepath s
           = (Inr data_loading_failed, s1)"
  using assms
  by (simp add: calculate_tax_and_assess_def load_failure_def data_loading_failed_def)

definition no_revenue_books :: dataframe where
  "no_revenue_books =
     table_of ''Metric'' ''Amount_NGN'' [(''Operating Expenses'', 35000000), (''Tax'', 4500000)]"

definition no_amount_books :: dataframe where
  \<comment> \<open>the same rows under a second header that is no synonym of the amount column\<close>
  "no_amount_books =
     table_of ''Metric'' ''Qty'' [(''Operating Expenses'', 35000000), (''Tax'', 4500000)]"

lemma read_sample_csv:
  "read_table (sample_lib [(''books.csv'', df)]) t ''books.csv'' = Inr df"
  by (simp add: read_table_def sample_lib_def endswith_def lower_def lower_char_def
        ascii_uppercase_def ascii_lowercase_def)

text \<open>
  Counterexample to claim C3 as stated. The table has a label column, no label of which
  matches a revenue keyword, and no amount column. \<open>load_financial_data\<close> tests the columns
  before it looks for the revenue: it raises the \<open>KeyError\<close> for the columns and reports a
  column identification error, not the \<open>ValueError\<close> for the missing revenue.
\<close>

theorem missing_revenue_counterexample:
  "find_column metric_col_names no_amount_books = Some ''Metric''
   \<and> map (matching_rows no_amount_books ''Metric'') revenue_keywords = [[], [], []]
   \<and> load_financial_data (sample_lib [(''books.csv'', no_amount_books)]) ''books.csv'' (start [])
       = (load_failure,
          print (ExnLine ''ERROR: Column identification error. '' columns_not_found [])
            (tick (start [])))
   \<and> ExnLine ''ERROR: Column identification error. '' columns_not_found []
       \<noteq> ExnLine ''ERROR: Data or format error: '' revenue_missing []"
proof -
  have m: "find_column metric_col_names no_amount_books = Some ''Metric''"
    by code_simp
  have a: "find_column amount_col_names no_amount_books = None"
    by code_simp
  have rows: "map (matching_rows no_amount_books ''Metric'') revenue_keywords = [[], [], []]"
    by code_simp
  have differ: "ExnLine ''ERROR: Column identification error. '' columns_not_found []
                  \<noteq> ExnLine ''ERROR: Data or format error: '' revenue_missing []"
    by simp
  show ?thesis
    using missing_columns_fail [OF read_sample_csv, where s = "start []"
        and df = no_amount_books] m a rows differ
    by simp
qed

text \<open>
  Claim C3, amended. When the file is read, its label column and its amount column are
  both resolved and no cell of the label column matches a revenue keyword,
  \<open>load_financial_data\<close> raises the \<open>ValueError\<close> for the missing revenue, reports it and
  returns the failure tuple. When the label column is resolved, no cell of it matches a
  revenue keyword and the amount column is not resolved, it raises the \<open>KeyError\<close> for the
  columns instead and returns the same failure tuple. In both cases
  \<open>calculate_tax_and_assess\<close> returns its fallback for a failed load and sends nothing to
  the completion client. Moreover no call of \<open>load_financial_data\<close> at all returns a table
  together with a revenue equal to zero.
\<close>

theorem missing_revenue_fails:
  assumes "read_table lib (clock s) filepath = Inr df"
    and "find_column metric_col_names df = Some metric_col"
    and "\<forall>k\<in>set revenue_keywords. \<forall>j<nrows df. \<not> label_contains k (iloc df metric_col j)"
  shows "(find_column amount_col_names df \<noteq> None \<longrightarrow>
            load_financial_data lib filepath s =
              (load_failure,
               print (ExnLine ''ERROR: Data or format error: '' revenue_missing []) (tick s)))
         \<and> (find_column amount_col_names df = None \<longrightarrow>
              load_financial_data lib filepath s =
                (load_failure,
                 print (ExnLine ''ERROR: Column identification error. '' columns_not_found [])
                   (tick s)))
         \<and> fst (load_financial_data lib filepath s) = load_failure
         \<and> fst (calculate_tax_and_assess lib svc business_size filepath s)
             = Inr data_loading_failed
         \<and> sent s (snd (calculate_tax_and_assess lib svc business_size filepath s)) = []
         \<and> (\<forall>lib' filepath' s' df' r p ov iv s''.
               load_financial_data lib' filepath' s' = ((Some df', Some r, p, ov, iv), s'')
               \<longrightarrow> \<not> float_eq r (Fin 0))"
proof -
  have zero: "find_value df metric_col amount_col revenue_keywords = Inr (Fin 0)" for amount_col
    using assms(3) by (rule find_value_no_match)
  have both: "load_financial_data lib filepath s =
                (load_failure,
                 print (ExnLine ''ERROR: Data or format error: '' revenue_missing []) (tick s))"
    if found: "find_column amount_col_names df \<noteq> None"
  proof -
    obtain amount_col where "find_column amount_col_names df = Some amount_col"
      using found by blast
    then show ?thesis
      using zero_revenue_load [OF assms(1,2) _ zero] by simp
  qed
  have one: "load_financial_data lib filepath s =
               (load_failure,
                print (ExnLine ''ERROR: Column identification error. '' columns_not_found [])
                  (tick s))"
    if "find_column amount_col_names df = None"
    using missing_columns_fail [OF assms(1)] that by simp
  obtain s1 where load: "load_financial_data lib filepath s = (load_failure, s1)"
    and quiet: "calls s1 = calls s"
  proof (cases "find_column amount_col_names df")
    case None
    then show ?thesis
      using one that by simp
  next
    case (Some amount_col)
    then show ?thesis
      using both that by simp
  qed
  have "calculate_tax_and_assess lib svc business_size filepath s
          = (Inr data_loading_failed, s1)"
    using load by (rule failed_load_calculate)
  then show ?thesis
    using load quiet both one loaded_revenue_not_zero by (simp add: sent_def)
qed

theorem missing_revenue_fails_witness:
  "load_financial_data (sample_lib [(''books.csv'', no_revenue_books)]) ''books.csv'' (start [])
     = (load_failure,
        print (ExnLine ''ERROR: Data or format error: '' revenue_missing []) (tick (start [])))
   \<and> fst (calculate_tax_and_assess (sample_lib [(''books.csv'', no_revenue_books)])
            (answering_service data_loading_failed) ''LARGE'' ''books.csv'' (start []))
       = Inr data_loading_failed
   \<and> sent (start [])
         (snd (calculate_tax_and_assess (sample_lib [(''books.csv'', no_revenue_books)])
                 (answering_service data_loading_failed) ''LARGE'' ''books.csv'' (start [])))
       = []"
proof -
  have m: "find_column metric_col_names no_revenue_books = Some ''Metric''"
    by code_simp
  have a: "find_column amount_col_names no_revenue_books \<noteq> None"
    by code_simp
  have "\<forall>k\<in>set revenue_keywords. \<forall>j\<in>set [0..<nrows no_revenue_books].
          \<not> label_contains k (iloc no_revenue_books ''Metric'' j)"
    by code_simp
  then have none: "\<forall>k\<in>set revenue_keywords. \<forall>j<nrows no_revenue_books.
                     \<not> label_contains k (iloc no_revenue_books ''Metric'' j)"
    by simp
  show ?thesis
    using missing_revenue_fails [OF read_sample_csv m none,
        where s = "start []" and svc = "answering_service data_loading_failed"
          and business_size = "''LARGE''"] a
    by simp
qed

definition zero_sales_books :: dataframe where
  \<comment> \<open>a revenue row of amount zero, and a row that the first revenue keyword selects\<close>
  "zero_sales_books =
     table_of ''Metric'' ''Amount'' [(''Sales'', 0), (''Total Revenue'', 145000000)]"

text \<open>
  Counterexample to claim C10 as stated. The table has a row labelled \<open>Sales\<close>, a revenue
  label, whose amount is \<open>0.0\<close>. Value resolution takes the revenue from the row labelled
  \<open>Total Revenue\<close>, whose keyword comes first: the load succeeds with that revenue, and
  \<open>calculate_tax_and_assess\<close> sends its request and returns the answer of the service.
\<close>

theorem zero_revenue_counterexample:
  "label_contains ''sales'' (iloc zero_sales_books ''Metric'' 0)
   \<and> as_float (iloc zero_sales_books ''Amount'' 0) = Inr (Fin 0)
   \<and> fst (snd (fst (load_financial_data (sample_lib [(''books.csv'', zero_sales_books)])
                      ''books.csv'' (start []))))
       = Some (Fin 145000000)
   \<and> length (sent (start [])
               (snd (calculate_tax_and_assess (sample_lib [(''books.csv'', zero_sales_books)])
                       (answering_service (get_fallback_response ''answered'' (Fin 0)))
                       ''LARGE'' ''books.csv'' (start [])))) = 1
   \<and> map_sum id compliance_recommendation
         (fst (calculate_tax_and_assess (sample_lib [(''books.csv'', zero_sales_books)])
                 (answering_service (get_fallback_response ''answered'' (Fin 0)))
                 ''LARGE'' ''books.csv'' (start [])))
       = Inr ''answered''"
  by code_simp

text \<open>
  Claim C10, amended. When the file is read and its two columns are resolved, and the row
  that value resolution selects for revenue (the first row matching the first revenue
  keyword that matches any row) has an amount equal to \<open>0.0\<close>, \<open>load_financial_data\<close> does
  what it does when no row matches: it raises the same \<open>ValueError\<close>, reports it and returns
  the same failure tuple, and \<open>calculate_tax_and_assess\<close> returns the fallback for a failed
  load without a request to the completion client. (A row with a revenue label and amount
  \<open>0.0\<close> that value resolution does not select has no such effect.)
\<close>

theorem zero_revenue_as_missing:
  assumes "read_table lib (clock s) filepath = Inr df"
    and "find_column metric_col_names df = Some metric_col"
    and "find_column amount_col_names df = Some amount_col"
    and "n < length revenue_keywords"
    and "\<forall>m<n. \<forall>j<nrows df.
           \<not> label_contains (revenue_keywords ! m) (iloc df metric_col j)"
    and "i < nrows df"
    and "label_contains (revenue_keywords ! n) (iloc df metric_col i)"
    and "\<forall>j<i. \<not> label_contains (revenue_keywords ! n) (iloc df metric_col j)"
    and "as_float (iloc df amount_col i) = Inr x"
    and "float_eq x (Fin 0)"
  shows "load_financial_data lib filepath s =
           (load_failure,
            print (ExnLine ''ERROR: Data or format error: '' revenue_missing []) (tick s))
         \<and> fst (calculate_tax_and_assess lib svc business_size filepath s)
             = Inr data_loading_failed
         \<and> sent s (snd (calculate_tax_and_assess lib svc business_size filepath s)) = []"
proof -
  have "find_value df metric_col amount_col revenue_keywords = Inr x"
    using find_value_match [OF assms(4-8), of amount_col] assms(9) by simp
  then show ?thesis
    using zero_revenue_load [OF assms(1-3) _ assms(10)]
      zero_revenue_calculate [OF assms(1-3) _ assms(10), of svc business_size]
    by (simp add: sent_def)
qed

definition zero_revenue_books :: dataframe where
  "zero_revenue_books =
     table_of ''Metric'' ''Amount'' [(''Operating Expenses'', 35000000), (''Revenue'', 0)]"

theorem zero_revenue_as_missing_witness:
  "load_financial_data (sample_lib [(''books.csv'', zero_revenue_books)]) ''books.csv'' (start [])
     = load_financial_data (sample_lib [(''books.csv'', no_revenue_books)]) ''books.csv''
         (start [])
   \<and> sent (start [])
         (snd (calculate_tax_and_assess (sample_lib [(''books.csv'', zero_revenue_books)])
                 (answering_service data_loading_failed) ''LARGE'' ''books.csv'' (start [])))
       = []"
proof -
  have m: "find_column metric_col_names zero_revenue_books = Some ''Metric''"
    by code_simp
  have a: "find_column amount_col_names zero_revenue_books = Some ''Amount''"
    by code_simp
  have n: "1 < length revenue_keywords"
    by (simp add: revenue_keywords_def)
  have "\<forall>j\<in>set [0..<nrows zero_revenue_books].
          \<not> label_contains (revenue_keywords ! 0) (iloc zero_revenue_books ''Metric'' j)"
    by code_simp
  then have before: "\<forall>m<1::nat. \<forall>j<nrows zero_revenue_books.
      \<not> label_contains (revenue_keywords ! m) (iloc zero_revenue_books ''Metric'' j)"
    by simp
  have i: "1 < nrows zero_revenue_books"
    by (simp add: zero_revenue_books_def table_of_def)
  have here: "label_contains (revenue_keywords ! 1) (iloc zero_revenue_books ''Metric'' 1)"
    by code_simp
  have "\<not> label_contains (revenue_keywords ! 1) (iloc zero_revenue_books ''Metric'' 0)"
    by code_simp
  then have first: "\<forall>j<1::nat.
      \<not> label_contains (revenue_keywords ! 1) (iloc zero_revenue_books ''Metric'' j)"
    by simp
  have amount: "as_float (iloc zero_revenue_books ''Amount'' 1) = Inr (Fin 0)"
    by (simp add: zero_revenue_books_def table_of_def)
  have zero: "float_eq (Fin 0) (Fin 0)"
    by simp
  have m': "find_column metric_col_names no_revenue_books = Some ''Metric''"
    by code_simp
  have a': "find_column amount_col_names no_revenue_books = Some ''Amount_NGN''"
    by code_simp
  have "\<forall>k\<in>set revenue_keywords. \<forall>j\<in>set [0..<nrows no_revenue_books].
          \<not> label_contains k (iloc no_revenue_books ''Metric'' j)"
    by code_simp
  then have none: "\<forall>k\<in>set revenue_keywords. \<forall>j<nrows no_revenue_books.
                     \<not> label_contains k (iloc no_revenue_books ''Metric'' j)"
    by simp
  have absent: "load_financial_data (sample_lib [(''books.csv'', no_revenue_books)])
                  ''books.csv'' (start [])
                = (load_failure,
                   print (ExnLine ''ERROR: Data or format error: '' revenue_missing [])
                     (tick (start [])))"
    using zero_revenue_load [OF read_sample_csv m' a' find_value_no_match [OF none]] by simp
  show ?thesis
    using zero_revenue_as_missing [OF read_sample_csv m a n before i here first amount zero,
        where s = "start []" and svc = "answering_service data_loading_failed"
          and business_size = "''LARGE''"]
      absent
    by simp
qed

subsection \<open>Missing columns in the earlier calculator\<close>

definition unlabelled_books :: dataframe where
  \<comment> \<open>no header is a synonym of the label column or of the amount column\<close>
  "unlabelled_books = table_of ''Name'' ''Qty'' [(''Revenue'', 145000000)]"

text \<open>
  Claim C4 on irrelevant/taxcalc.py. For a file whose headers match neither set of names,
  \<open>load_financial_data\<close> of irrelevant/taxcalc.py skips the block that would assign
  \<open>total_revenue\<close>, goes on to the \<open>return\<close>, and fails there with \<open>UnboundLocalError\<close>,
  which the last handler reports as an unexpected error; on the same file
  \<open>load_financial_data\<close> of nigerian_taxcalc.py raises the \<open>KeyError\<close> for the columns.
\<close>

theorem taxcalc_missing_columns:
  "taxcalc_load_financial_data (sample_lib [(''books.csv'', unlabelled_books)]) ''books.csv''
       (start [])
     = ((None, None),
        print (ExnLine ''An unexpected error occurred while reading the file: ''
                 (UnboundLocalError
                    ''cannot access local variable 'total_revenue' where it is not associated with a value'')
                 [])
          (tick (start [])))
   \<and> load_financial_data (sample_lib [(''books.csv'', unlabelled_books)]) ''books.csv''
         (start [])
     = (load_failure,
        print (ExnLine ''ERROR: Column identification error. '' columns_not_found [])
          (tick (start [])))"
proof -
  have m: "find_column metric_col_names unlabelled_books = None"
    by code_simp
  have "taxcalc_extract unlabelled_books
          = Inl (UnboundLocalError
                   ''cannot access local variable 'total_revenue' where it is not associated with a value'')"
    by (simp add: taxcalc_extract_def m pending_def)
  then show ?thesis
    using missing_columns_fail [OF read_sample_csv, where s = "start []"
        and df = unlabelled_books] m
    by (simp add: taxcalc_load_financial_data_def read_sample_csv)
qed

section \<open>The interactive loops\<close>

subsection \<open>End of file\<close>

lemma stdout_print [simp]: "stdout (print l s) = stdout s @ [l]"
  by (simp add: print_def)

lemma advisor_question_clean:
  "phase (advisor_question consult q s) \<noteq> Crashed e"
  "phase (advisor_question consult q s) = Done \<Longrightarrow>
     last (stdout (world (advisor_question consult q s))) = advisor_goodbye"
  by (auto simp: advisor_question_def split: if_splits)

lemma advisor_step_clean:
  assumes "\<not> finished st"
  shows "phase (advisor_step cp consult st) \<noteq> Crashed e"
    and "phase (advisor_step cp consult st) = Done \<Longrightarrow>
           last (stdout (world (advisor_step cp consult st))) = advisor_goodbye"
  using assms advisor_question_clean [of consult]
  by (auto simp: advisor_step_def finished_def Let_def
           split: phase.splits option.splits prod.splits sum.splits if_splits)

lemma advise_loop_clean:
  "\<not> finished st \<Longrightarrow>
     phase (advise_loop svc st) = Done
     \<and> last (stdout (world (advise_loop svc st))) = advisor_goodbye"
proof (induction svc st rule: advise_loop.induct)
  case (1 svc st)
  let ?st' = "advisor_step detailed_continue_prompt (advise_consult svc) st"
  have unfold: "advise_loop svc st = advise_loop svc ?st'"
    using "1.prems" by (simp add: advise_loop.simps [of svc st])
  show ?case
  proof (cases "finished ?st'")
    case True
    then have "phase ?st' = Done"
      using advisor_step_clean(1) [OF "1.prems", of detailed_continue_prompt "advise_consult svc"]
      by (auto simp: finished_def split: phase.splits)
    then show ?thesis
      using True advisor_step_clean(2) [OF "1.prems"] unfold
      by (simp add: advise_loop.simps [of svc ?st'])
  next
    case False
    then show ?thesis
      using "1.IH" [OF "1.prems"] unfold by simp
  qed
qed

lemma advisor_loop_clean:
  "\<not> finished st \<Longrightarrow>
     phase (advisor_loop svc st) = Done
     \<and> last (stdout (world (advisor_loop svc st))) = advisor_goodbye"
proof (induction svc st rule: advisor_loop.induct)
  case (1 svc st)
  let ?st' = "advisor_step basic_continue_prompt (advisor_consult svc) st"
  have unfold: "advisor_loop svc st = advisor_loop svc ?st'"
    using "1.prems" by (simp add: advisor_loop.simps [of svc st])
  show ?case
  proof (cases "finished ?st'")
    case True
    then have "phase ?st' = Done"
      using advisor_step_clean(1) [OF "1.prems", of basic_continue_prompt "advisor_consult svc"]
      by (auto simp: finished_def split: phase.splits)
    then show ?thesis
      using True advisor_step_clean(2) [OF "1.prems"] unfold
      by (simp add: advisor_loop.simps [of svc ?st'])
  next
    case False
    then show ?thesis
      using "1.IH" [OF "1.prems"] unfold by simp
  qed
qed

text \<open>
  Counterexample to claim C8 as stated: with stdin at end of file from the start,
  nigerian_taxcalc.py and analyst.py end with an uncaught \<open>EOFError\<close>, the first at its
  path prompt, the second at its continuation prompt after it has reported the
  \<open>EOFError\<close> of the industry prompt as an unexpected runtime error.
\<close>

theorem eof_uncaught_counterexample:
  "phase (tax_main (sample_lib []) unreachable_service []) = Crashed EOFError
   \<and> phase (analyst_main (sample_lib []) unreachable_service []) = Crashed EOFError"
  by code_simp

text \<open>
  Claim C8, amended to the two tools that handle \<open>EOFError\<close>. Whatever is typed before
  stdin reaches end of file, and at whichever prompt that happens, a session of advise.py
  and a session of nigerian_advisor.py leave the loop through \<open>break\<close> and the last line
  printed is the goodbye message; no exception leaves the program.
\<close>

theorem advisors_end_cleanly:
  "phase (advise_main advise_svc lines) = Done
   \<and> last (stdout (world (advise_main advise_svc lines))) = advisor_goodbye
   \<and> phase (advisor_main advisor_svc lines) = Done
   \<and> last (stdout (world (advisor_main advisor_svc lines))) = advisor_goodbye"
  by (simp add: advise_main_def advisor_main_def advise_loop_clean advisor_loop_clean
        finished_def)

subsection \<open>Exit keywords\<close>

lemma input_line:
  "stdin s = l # rest \<Longrightarrow> input p s = (Inr l, (print (Ask p) s)\<lparr>stdin := rest\<rparr>)"
  by (simp add: input_def)

lemma stdout_stdin_update [simp]: "stdout (s\<lparr>stdin := ls\<rparr>) = stdout s"
  by simp




text \<open>
  The continuation prompt of every tool also takes \<open>n\<close> as an exit keyword. \<open>q\<close> at the
  continuation prompt ends the loops of advise.py and nigerian_advisor.py; in
  nigerian_taxcalc.py and analyst.py it starts another round.
\<close>

lemma continuation_n_and_q:
  assumes "stdin (world st) = l # rest" and "phase st = AwaitingContinuation"
  shows "lower (strip l) = ''n'' \<Longrightarrow>
           phase (advisor_step detailed_continue_prompt (advise_consult advise_svc) st) = Done
           \<and> phase (advisor_step basic_continue_prompt (advisor_consult advisor_svc) st) = Done
           \<and> phase (tax_step lib tax_svc st) = Done
           \<and> phase (analyst_step lib analyst_svc st) = Done"
    and "lower (strip l) = ''q'' \<Longrightarrow>
           phase (advisor_step detailed_continue_prompt (advise_consult advise_svc) st) = Done
           \<and> phase (advisor_step basic_continue_prompt (advisor_consult advisor_svc) st) = Done
           \<and> phase (tax_step lib tax_svc st) = AwaitingInput
           \<and> phase (analyst_step lib analyst_svc st) = AwaitingInput"
proof -
  have in1: "input p (world st) = (Inr l, (print (Ask p) (world st))\<lparr>stdin := rest\<rparr>)" for p
    using assms(1) by (rule input_line)
  show "lower (strip l) = ''n'' \<Longrightarrow>
           phase (advisor_step detailed_continue_prompt (advise_consult advise_svc) st) = Done
           \<and> phase (advisor_step basic_continue_prompt (advisor_consult advisor_svc) st) = Done
           \<and> phase (tax_step lib tax_svc st) = Done
           \<and> phase (analyst_step lib analyst_svc st) = Done"
    using assms(2) in1
    by (auto simp: advisor_step_def tax_step_def analyst_step_def Let_def at_phase_def lower_def)
  show "lower (strip l) = ''q'' \<Longrightarrow>
           phase (advisor_step detailed_continue_prompt (advise_consult advise_svc) st) = Done
           \<and> phase (advisor_step basic_continue_prompt (advisor_consult advisor_svc) st) = Done
           \<and> phase (tax_step lib tax_svc st) = AwaitingInput
           \<and> phase (analyst_step lib analyst_svc st) = AwaitingInput"
    using assms(2) in1
    by (auto simp: advisor_step_def tax_step_def analyst_step_def Let_def at_phase_def lower_def)
qed

subsection \<open>Greetings\<close>

lemma calls_input [simp]: "calls (snd (input p s)) = calls s"
  by (simp add: input_def split: list.splits)

lemma calls_advise_consult:
  "set (calls (advise_consult svc q s)) \<subseteq> insert (full_query (SYSTEM_PROMPT svc) q) (set (calls s))"
  by (auto simp: advise_consult_def get_nigerian_advice_def request_def
           split: option.splits sum.splits prod.splits)

lemma calls_advisor_consult:
  "set (calls (advisor_consult svc q s)) \<subseteq> insert (full_query (SYSTEM_PROMPT svc) q) (set (calls s))"
  by (auto simp: advisor_consult_def get_nigerian_advice_basic_def request_def
           split: option.splits sum.splits prod.splits)

lemma full_query_inject [simp]: "full_query policy q = full_query policy q' \<longleftrightarrow> q = q'"
  by (simp add: full_query_def)

lemma advisor_question_keeps:
  assumes "\<And>q s. set (calls (consult q s)) \<subseteq> insert (full_query policy q) (set (calls s))"
    and "lower g \<in> set GREETINGS"
    and "full_query policy g \<notin> set (calls s)"
  shows "full_query policy g \<notin> set (calls (world (advisor_question consult q s)))"
proof (cases "lower q \<in> set GREETINGS")
  case True
  then show ?thesis
    using assms(3) by (simp add: advisor_question_def)
next
  case False
  then have "q \<noteq> g"
    using assms(2) by auto
  then have "full_query policy g \<notin> set (calls (consult q s))"
    using assms(1) [of q s] assms(3) by auto
  then show ?thesis
    using assms(3) by (simp add: advisor_question_def)
qed

lemma advisor_step_keeps:
  assumes "\<And>q s. set (calls (consult q s)) \<subseteq> insert (full_query policy q) (set (calls s))"
    and "lower g \<in> set GREETINGS"
    and "full_query policy g \<notin> set (calls (world st))"
  shows "full_query policy g \<notin> set (calls (world (advisor_step cp consult st)))"
proof -
  have q: "full_query policy g \<notin> set (calls s) \<Longrightarrow>
           full_query policy g \<notin> set (calls (world (advisor_question consult q s)))" for q s
    using advisor_question_keeps [OF assms(1,2)] by blast
  have i: "input p (world st) = (r, s) \<Longrightarrow> full_query policy g \<notin> set (calls s)" for p r s
    using calls_input [of p "world st"] assms(3) by simp
  show ?thesis
    using assms(3) q i
    by (auto simp: advisor_step_def Let_def
             split: phase.splits option.splits prod.splits sum.splits)
qed

lemma advise_loop_keeps:
  assumes "lower g \<in> set GREETINGS"
  shows "full_query (SYSTEM_PROMPT svc) g \<notin> set (calls (world st)) \<Longrightarrow>
         full_query (SYSTEM_PROMPT svc) g \<notin> set (calls (world (advise_loop svc st)))"
proof (induction svc st rule: advise_loop.induct)
  case (1 svc st)
  show ?case
  proof (cases "finished st")
    case True
    then show ?thesis
      using "1.prems" by (simp add: advise_loop.simps [of svc st])
  next
    case False
    have "full_query (SYSTEM_PROMPT svc) g
            \<notin> set (calls (world (advisor_step detailed_continue_prompt (advise_consult svc) st)))"
      using advisor_step_keeps [OF calls_advise_consult assms "1.prems"] .
    then show ?thesis
      using "1.IH" [OF False] False by (simp add: advise_loop.simps [of svc st])
  qed
qed

lemma advisor_loop_keeps:
  assumes "lower g \<in> set GREETINGS"
  shows "full_query (SYSTEM_PROMPT svc) g \<notin> set (calls (world st)) \<Longrightarrow>
         full_query (SYSTEM_PROMPT svc) g \<notin> set (calls (world (advisor_loop svc st)))"
proof (induction svc st rule: advisor_loop.induct)
  case (1 svc st)
  show ?case
  proof (cases "finished st")
    case True
    then show ?thesis
      using "1.prems" by (simp add: advisor_loop.simps [of svc st])
  next
    case False
    have "full_query (SYSTEM_PROMPT svc) g
            \<notin> set (calls (world (advisor_step basic_continue_prompt (advisor_consult svc) st)))"
      using advisor_step_keeps [OF calls_advisor_consult assms "1.prems"] .
    then show ?thesis
      using "1.IH" [OF False] False by (simp add: advisor_loop.simps [of svc st])
  qed
qed

text \<open>
  Counterexample to claim C6 as stated: irrelevant/chatbot.py sends the greeting
  \<open>hello\<close> to the completion client.
\<close>

theorem greeting_counterexample:
  "calls (world (chatbot_main (answering_service basic_fallback) [''hello'']))
     = [full_query sample_policy ''hello'']"
  by code_simp

text \<open>
  Claim C6, amended to the two tools that have a list of greetings. Let a line be, after
  stripping and lower-casing, one of the greetings. In no session of advise.py or of
  nigerian_advisor.py is the question made of that line sent to the completion client.
  In the loop of either tool, typed at the first prompt the line makes the loop print the
  welcome reply and go back to the first prompt; typed at the continuation prompt it
  becomes the pending question, for which the next round prints the welcome reply and
  goes back to the first prompt.
\<close>

theorem greeting_short_circuit:
  assumes "lower (strip l) \<in> set GREETINGS"
  shows "full_query (SYSTEM_PROMPT advise_svc) (strip l)
           \<notin> set (calls (world (advise_main advise_svc lines)))
         \<and> full_query (SYSTEM_PROMPT advisor_svc) (strip l)
           \<notin> set (calls (world (advisor_main advisor_svc lines)))
         \<and> (phase st = AwaitingInput \<and> pending (next_query st) = None
              \<and> stdin (world st) = l # rest
            \<longrightarrow> advisor_step cp consult st =
                  \<lparr>phase = AwaitingInput, next_query = None,
                   world = prints advisor_welcome
                             ((print (Ask advisor_prompt) (world st))\<lparr>stdin := rest\<rparr>)\<rparr>)
         \<and> (phase st = AwaitingContinuation \<and> stdin (world st) = l # rest
            \<longrightarrow> advisor_step cp consult st =
                  \<lparr>phase = AwaitingInput, next_query = Some (strip l),
                   world = (print (Ask cp) (world st))\<lparr>stdin := rest\<rparr>\<rparr>)
         \<and> (phase st = AwaitingInput \<and> next_query st = Some (strip l)
            \<longrightarrow> advisor_step cp consult st =
                  \<lparr>phase = AwaitingInput, next_query = None,
                   world = prints advisor_welcome (print (Line (dashes 50)) (world st))\<rparr>)"
proof -
  have ne: "strip l \<noteq> []"
    using assms by (auto simp: lower_def GREETINGS_def)
  have no_exit: "lower (strip l) \<notin> set [''quit'', ''exit'', ''q'']"
    "lower (strip l) \<notin> set [''no'', ''n'', ''quit'', ''exit'', ''q'']"
    using assms by (auto simp: GREETINGS_def)
  have a: "full_query (SYSTEM_PROMPT advise_svc) (strip l)
             \<notin> set (calls (world (advise_main advise_svc lines)))"
    unfolding advise_main_def
    by (rule advise_loop_keeps [OF assms]) (simp add: start_def)
  have b: "full_query (SYSTEM_PROMPT advisor_svc) (strip l)
             \<notin> set (calls (world (advisor_main advisor_svc lines)))"
    unfolding advisor_main_def
    by (rule advisor_loop_keeps [OF assms]) (simp add: start_def)
  have c: "advisor_question consult (strip l) s =
             \<lparr>phase = AwaitingInput, next_query = None, world = prints advisor_welcome s\<rparr>" for s
    using assms ne no_exit(1) by (simp add: advisor_question_def)
  show ?thesis
    using a b c ne no_exit(2)
    by (auto simp: advisor_step_def input_line pending_def Let_def)
qed

theorem greeting_short_circuit_witness:
  "full_query sample_policy ''Hello''
     \<notin> set (calls (world (advise_main (answering_service detailed_fallback)
                             ['' Hello'', ''How do I register for VAT?'', ''hi'', ''quit''])))
   \<and> calls (world (advise_main (answering_service detailed_fallback)
                     ['' Hello'', ''How do I register for VAT?'', ''hi'', ''quit'']))
     = [full_query sample_policy ''How do I register for VAT?'']"
proof -
  have g: "lower (strip '' Hello'') \<in> set GREETINGS"
    by code_simp
  have s: "strip '' Hello'' = ''Hello''"
    by code_simp
  have p: "SYSTEM_PROMPT (answering_service detailed_fallback) = sample_policy"
    by (simp add: answering_service_def)
  have e: "calls (world (advise_main (answering_service detailed_fallback)
                     ['' Hello'', ''How do I register for VAT?'', ''hi'', ''quit'']))
     = [full_query sample_policy ''How do I register for VAT?'']"
    by code_simp
  show ?thesis
    using greeting_short_circuit [OF g, where advise_svc = "answering_service detailed_fallback"
        and lines = "['' Hello'', ''How do I register for VAT?'', ''hi'', ''quit'']"]
      e
    by (simp only: s p) simp
qed

text \<open>
  irrelevant/chatbot.py sends every question that is not blank, as typed, when the client
  can be built.
\<close>

lemma chatbot_sends_question:
  assumes "strip l \<noteq> []" and "from_bedrock svc 0 = None"
  shows "calls (world (chatbot_main svc (l # rest))) = [full_query (SYSTEM_PROMPT svc) l]"
  using assms
  by (simp add: chatbot_main_def input_def print_def prints_def start_def
        get_nigerian_advice_basic_def request_def tick_def split: sum.splits prod.splits)

end
